theory Spec2Isabelle
  imports Main "HOL-Library.Word" "HOL-Library.AList"
begin

unbundle bit_operations_syntax

section \<open>Byte strings\<close>

text \<open>
  A Go \<open>string\<close> and a Go \<open>[]byte\<close> are both sequences of bytes, and the
  conversions \<open>[]byte(s)\<close> and \<open>string(b)\<close> keep the bytes. Both are modelled by
  \<open>string\<close>, whose characters are exactly the 256 byte values.
\<close>

type_synonym bytes = string

definition hextable :: "string" where
  "hextable = ''0123456789abcdef''"

definition hex_byte :: "char \<Rightarrow> string" where
  "hex_byte c = [hextable ! (of_char c div 16), hextable ! (of_char c mod 16)]"

text \<open>\<open>encoding/hex.EncodeToString\<close>: two lower-case hexadecimal digits per byte.\<close>

definition hex_EncodeToString :: "bytes \<Rightarrow> string" where
  "hex_EncodeToString src = concat (map hex_byte src)"

section \<open>The hash functions of the Go standard library\<close>

text \<open>
  The repository calls \<open>crypto/sha1\<close>, \<open>crypto/sha256\<close>, \<open>crypto/sha512\<close>,
  \<open>crypto/md5\<close> and \<open>crypto/hmac\<close>. They are modelled by the functions those
  packages compute (FIPS 180-4, RFC 1321, RFC 2104) on byte strings, with the 32-bit and
  64-bit registers as machine words.
\<close>

type_synonym u32 = "32 word"
type_synonym u64 = "64 word"

definition be_word :: "bytes \<Rightarrow> 'a::len word" where
  "be_word cs = foldl (\<lambda>w c. push_bit 8 w OR of_char c) 0 cs"

definition le_word :: "bytes \<Rightarrow> 'a::len word" where
  "le_word cs = be_word (rev cs)"

definition byte_at :: "nat \<Rightarrow> 'a::len word \<Rightarrow> char" where
  "byte_at i w = char_of (unat (drop_bit i w))"

definition be_bytes32 :: "u32 \<Rightarrow> bytes" where
  "be_bytes32 w = [byte_at 24 w, byte_at 16 w, byte_at 8 w, byte_at 0 w]"

definition le_bytes32 :: "u32 \<Rightarrow> bytes" where
  "le_bytes32 w = [byte_at 0 w, byte_at 8 w, byte_at 16 w, byte_at 24 w]"

definition be_bytes64 :: "u64 \<Rightarrow> bytes" where
  "be_bytes64 w = [byte_at 56 w, byte_at 48 w, byte_at 40 w, byte_at 32 w,
                   byte_at 24 w, byte_at 16 w, byte_at 8 w, byte_at 0 w]"

definition le_bytes64 :: "u64 \<Rightarrow> bytes" where
  "le_bytes64 w = rev (be_bytes64 w)"

fun words32 :: "bytes \<Rightarrow> bytes list" where
  "words32 (a # b # c # d # cs) = [a, b, c, d] # words32 cs"
| "words32 cs = []"

fun words64 :: "bytes \<Rightarrow> bytes list" where
  "words64 (a # b # c # d # e # f # g # h # cs) = [a, b, c, d, e, f, g, h] # words64 cs"
| "words64 cs = []"

text \<open>The bit length of the message, as the \<open>uint64\<close> the padding stores.\<close>

definition bit_length :: "bytes \<Rightarrow> u64" where
  "bit_length m = word_of_nat (length m) * 8"

text \<open>
  Padding to a multiple of 64 bytes: the byte \<open>0x80\<close>, zero bytes up to 56 modulo 64,
  and the bit length in eight bytes (big-endian for SHA, little-endian for MD5).
\<close>

definition pad_zeros64 :: "bytes \<Rightarrow> bytes" where
  "pad_zeros64 m = replicate ((119 - length m mod 64) mod 64) (CHR 0x00)"

definition sha_pad64 :: "bytes \<Rightarrow> bytes" where
  "sha_pad64 m = m @ CHR 0x80 # pad_zeros64 m @ be_bytes64 (bit_length m)"

definition md5_pad :: "bytes \<Rightarrow> bytes" where
  "md5_pad m = m @ CHR 0x80 # pad_zeros64 m @ le_bytes64 (bit_length m)"

text \<open>
  Padding to a multiple of 128 bytes for SHA-384 and SHA-512; the length field has sixteen
  bytes, of which the upper eight are zero since the length is a \<open>uint64\<close>.
\<close>

definition sha_pad128 :: "bytes \<Rightarrow> bytes" where
  "sha_pad128 m = m @ CHR 0x80 # replicate ((239 - length m mod 128) mod 128) (CHR 0x00)
                  @ replicate 8 (CHR 0x00) @ be_bytes64 (bit_length m)"

text \<open>The blocks of a padded message are consumed in order by a compression function.\<close>

function blocks_fold :: "nat \<Rightarrow> ('s \<Rightarrow> bytes \<Rightarrow> 's) \<Rightarrow> 's \<Rightarrow> bytes \<Rightarrow> 's" where
  "blocks_fold n f s m =
     (if 0 < n \<and> n \<le> length m then blocks_fold n f (f s (take n m)) (drop n m) else s)"
  by pat_completeness auto
termination
  by (relation "measure (\<lambda>(n, f, s, m). length m)") auto

declare blocks_fold.simps [simp del]

subsection \<open>SHA-1\<close>

definition rotl32 :: "nat \<Rightarrow> u32 \<Rightarrow> u32" where
  "rotl32 n x = push_bit n x OR drop_bit (32 - n) x"

definition sha1_f :: "nat \<Rightarrow> u32 \<Rightarrow> u32 \<Rightarrow> u32 \<Rightarrow> u32" where
  "sha1_f t b c d =
     (if t < 20 then (b AND c) OR (NOT b AND d)
      else if t < 40 then b XOR c XOR d
      else if t < 60 then (b AND c) OR (b AND d) OR (c AND d)
      else b XOR c XOR d)"

definition sha1_k :: "nat \<Rightarrow> u32" where
  "sha1_k t =
     (if t < 20 then 0x5A827999
      else if t < 40 then 0x6ED9EBA1
      else if t < 60 then 0x8F1BBCDC
      else 0xCA62C1D6)"

type_synonym sha1_state = "u32 \<times> u32 \<times> u32 \<times> u32 \<times> u32"

text \<open>
  The message schedule is kept as a window of sixteen words: its head is the word of the
  current round, and the word sixteen rounds ahead is appended.
\<close>

fun sha1_schedule :: "u32 list \<Rightarrow> u32" where
  "sha1_schedule (w0 # w1 # w2 # w3 # w4 # w5 # w6 # w7 # w8 # w9 # w10 # w11 # w12 # w13 # ws) =
     rotl32 1 (w13 XOR w8 XOR w2 XOR w0)"
| "sha1_schedule ws = 0"

fun sha1_round :: "nat \<Rightarrow> u32 \<Rightarrow> sha1_state \<Rightarrow> sha1_state" where
  "sha1_round t w (a, b, c, d, e) =
     (rotl32 5 a + sha1_f t b c d + e + w + sha1_k t, a, rotl32 30 b, c, d)"

function sha1_rounds :: "nat \<Rightarrow> u32 list \<Rightarrow> sha1_state \<Rightarrow> sha1_state" where
  "sha1_rounds t ws s =
     (if t < 80
      then sha1_rounds (t + 1) (tl ws @ [sha1_schedule ws]) (sha1_round t (hd ws) s)
      else s)"
  by pat_completeness auto
termination
  by (relation "measure (\<lambda>(t, ws, s). 80 - t)") auto

declare sha1_rounds.simps [simp del]

fun sha1_add :: "sha1_state \<Rightarrow> sha1_state \<Rightarrow> sha1_state" where
  "sha1_add (h0, h1, h2, h3, h4) (a, b, c, d, e) = (h0 + a, h1 + b, h2 + c, h3 + d, h4 + e)"

definition sha1_block :: "sha1_state \<Rightarrow> bytes \<Rightarrow> sha1_state" where
  "sha1_block s blk = sha1_add s (sha1_rounds 0 (map be_word (words32 blk)) s)"

definition sha1_init :: "sha1_state" where
  "sha1_init = (0x67452301, 0xEFCDAB89, 0x98BADCFE, 0x10325476, 0xC3D2E1F0)"

fun sha1_out :: "sha1_state \<Rightarrow> bytes" where
  "sha1_out (a, b, c, d, e) = concat (map be_bytes32 [a, b, c, d, e])"

definition sha1 :: "bytes \<Rightarrow> bytes" where
  "sha1 m = sha1_out (blocks_fold 64 sha1_block sha1_init (sha_pad64 m))"

subsection \<open>SHA-256\<close>

definition rotr32 :: "nat \<Rightarrow> u32 \<Rightarrow> u32" where
  "rotr32 n x = drop_bit n x OR push_bit (32 - n) x"

definition sha256_k :: "u32 list" where
  "sha256_k =
    [
     0x428A2F98, 0x71374491, 0xB5C0FBCF, 0xE9B5DBA5, 0x3956C25B, 0x59F111F1,
     0x923F82A4, 0xAB1C5ED5, 0xD807AA98, 0x12835B01, 0x243185BE, 0x550C7DC3,
     0x72BE5D74, 0x80DEB1FE, 0x9BDC06A7, 0xC19BF174, 0xE49B69C1, 0xEFBE4786,
     0x0FC19DC6, 0x240CA1CC, 0x2DE92C6F, 0x4A7484AA, 0x5CB0A9DC, 0x76F988DA,
     0x983E5152, 0xA831C66D, 0xB00327C8, 0xBF597FC7, 0xC6E00BF3, 0xD5A79147,
     0x06CA6351, 0x14292967, 0x27B70A85, 0x2E1B2138, 0x4D2C6DFC, 0x53380D13,
     0x650A7354, 0x766A0ABB, 0x81C2C92E, 0x92722C85, 0xA2BFE8A1, 0xA81A664B,
     0xC24B8B70, 0xC76C51A3, 0xD192E819, 0xD6990624, 0xF40E3585, 0x106AA070,
     0x19A4C116, 0x1E376C08, 0x2748774C, 0x34B0BCB5, 0x391C0CB3, 0x4ED8AA4A,
     0x5B9CCA4F, 0x682E6FF3, 0x748F82EE, 0x78A5636F, 0x84C87814, 0x8CC70208,
     0x90BEFFFA, 0xA4506CEB, 0xBEF9A3F7, 0xC67178F2]"

type_synonym sha256_state = "u32 \<times> u32 \<times> u32 \<times> u32 \<times> u32 \<times> u32 \<times> u32 \<times> u32"

definition ch32 :: "u32 \<Rightarrow> u32 \<Rightarrow> u32 \<Rightarrow> u32" where
  "ch32 x y z = (x AND y) XOR (NOT x AND z)"

definition maj32 :: "u32 \<Rightarrow> u32 \<Rightarrow> u32 \<Rightarrow> u32" where
  "maj32 x y z = (x AND y) XOR (x AND z) XOR (y AND z)"

definition bsig256_0 :: "u32 \<Rightarrow> u32" where
  "bsig256_0 x = rotr32 2 x XOR rotr32 13 x XOR rotr32 22 x"

definition bsig256_1 :: "u32 \<Rightarrow> u32" where
  "bsig256_1 x = rotr32 6 x XOR rotr32 11 x XOR rotr32 25 x"

definition ssig256_0 :: "u32 \<Rightarrow> u32" where
  "ssig256_0 x = rotr32 7 x XOR rotr32 18 x XOR drop_bit 3 x"

definition ssig256_1 :: "u32 \<Rightarrow> u32" where
  "ssig256_1 x = rotr32 17 x XOR rotr32 19 x XOR drop_bit 10 x"

fun sha256_schedule :: "u32 list \<Rightarrow> u32" where
  "sha256_schedule (w0 # w1 # w2 # w3 # w4 # w5 # w6 # w7 # w8 # w9 # w10 # w11 # w12 # w13
                     # w14 # ws) =
     ssig256_1 w14 + w9 + ssig256_0 w1 + w0"
| "sha256_schedule ws = 0"

fun sha256_round :: "nat \<Rightarrow> u32 \<Rightarrow> sha256_state \<Rightarrow> sha256_state" where
  "sha256_round t w (a, b, c, d, e, f, g, h) =
     (h + bsig256_1 e + ch32 e f g + sha256_k ! t + w + (bsig256_0 a + maj32 a b c),
      a, b, c,
      d + (h + bsig256_1 e + ch32 e f g + sha256_k ! t + w),
      e, f, g)"

function sha256_rounds :: "nat \<Rightarrow> u32 list \<Rightarrow> sha256_state \<Rightarrow> sha256_state" where
  "sha256_rounds t ws s =
     (if t < 64
      then sha256_rounds (t + 1) (tl ws @ [sha256_schedule ws]) (sha256_round t (hd ws) s)
      else s)"
  by pat_completeness auto
termination
  by (relation "measure (\<lambda>(t, ws, s). 64 - t)") auto

declare sha256_rounds.simps [simp del]

fun sha256_add :: "sha256_state \<Rightarrow> sha256_state \<Rightarrow> sha256_state" where
  "sha256_add (h0, h1, h2, h3, h4, h5, h6, h7) (a, b, c, d, e, f, g, h) =
     (h0 + a, h1 + b, h2 + c, h3 + d, h4 + e, h5 + f, h6 + g, h7 + h)"

definition sha256_block :: "sha256_state \<Rightarrow> bytes \<Rightarrow> sha256_state" where
  "sha256_block s blk = sha256_add s (sha256_rounds 0 (map be_word (words32 blk)) s)"

definition sha256_init :: "sha256_state" where
  "sha256_init =
    (0x6A09E667, 0xBB67AE85, 0x3C6EF372, 0xA54FF53A,
     0x510E527F, 0x9B05688C, 0x1F83D9AB, 0x5BE0CD19)"

fun sha256_out :: "sha256_state \<Rightarrow> bytes" where
  "sha256_out (a, b, c, d, e, f, g, h) = concat (map be_bytes32 [a, b, c, d, e, f, g, h])"

definition sha256 :: "bytes \<Rightarrow> bytes" where
  "sha256 m = sha256_out (blocks_fold 64 sha256_block sha256_init (sha_pad64 m))"

subsection \<open>SHA-512 and SHA-384\<close>

definition rotr64 :: "nat \<Rightarrow> u64 \<Rightarrow> u64" where
  "rotr64 n x = drop_bit n x OR push_bit (64 - n) x"

definition sha512_k :: "u64 list" where
  "sha512_k =
    [
     0x428A2F98D728AE22, 0x7137449123EF65CD, 0xB5C0FBCFEC4D3B2F, 0xE9B5DBA58189DBBC,
     0x3956C25BF348B538, 0x59F111F1B605D019, 0x923F82A4AF194F9B, 0xAB1C5ED5DA6D8118,
     0xD807AA98A3030242, 0x12835B0145706FBE, 0x243185BE4EE4B28C, 0x550C7DC3D5FFB4E2,
     0x72BE5D74F27B896F, 0x80DEB1FE3B1696B1, 0x9BDC06A725C71235, 0xC19BF174CF692694,
     0xE49B69C19EF14AD2, 0xEFBE4786384F25E3, 0x0FC19DC68B8CD5B5, 0x240CA1CC77AC9C65,
     0x2DE92C6F592B0275, 0x4A7484AA6EA6E483, 0x5CB0A9DCBD41FBD4, 0x76F988DA831153B5,
     0x983E5152EE66DFAB, 0xA831C66D2DB43210, 0xB00327C898FB213F, 0xBF597FC7BEEF0EE4,
     0xC6E00BF33DA88FC2, 0xD5A79147930AA725, 0x06CA6351E003826F, 0x142929670A0E6E70,
     0x27B70A8546D22FFC, 0x2E1B21385C26C926, 0x4D2C6DFC5AC42AED, 0x53380D139D95B3DF,
     0x650A73548BAF63DE, 0x766A0ABB3C77B2A8, 0x81C2C92E47EDAEE6, 0x92722C851482353B,
     0xA2BFE8A14CF10364, 0xA81A664BBC423001, 0xC24B8B70D0F89791, 0xC76C51A30654BE30,
     0xD192E819D6EF5218, 0xD69906245565A910, 0xF40E35855771202A, 0x106AA07032BBD1B8,
     0x19A4C116B8D2D0C8, 0x1E376C085141AB53, 0x2748774CDF8EEB99, 0x34B0BCB5E19B48A8,
     0x391C0CB3C5C95A63, 0x4ED8AA4AE3418ACB, 0x5B9CCA4F7763E373, 0x682E6FF3D6B2B8A3,
     0x748F82EE5DEFB2FC, 0x78A5636F43172F60, 0x84C87814A1F0AB72, 0x8CC702081A6439EC,
     0x90BEFFFA23631E28, 0xA4506CEBDE82BDE9, 0xBEF9A3F7B2C67915, 0xC67178F2E372532B,
     0xCA273ECEEA26619C, 0xD186B8C721C0C207, 0xEADA7DD6CDE0EB1E, 0xF57D4F7FEE6ED178,
     0x06F067AA72176FBA, 0x0A637DC5A2C898A6, 0x113F9804BEF90DAE, 0x1B710B35131C471B,
     0x28DB77F523047D84, 0x32CAAB7B40C72493, 0x3C9EBE0A15C9BEBC, 0x431D67C49C100D4C,
     0x4CC5D4BECB3E42B6, 0x597F299CFC657E2A, 0x5FCB6FAB3AD6FAEC, 0x6C44198C4A475817]"

type_synonym sha512_state = "u64 \<times> u64 \<times> u64 \<times> u64 \<times> u64 \<times> u64 \<times> u64 \<times> u64"

definition ch64 :: "u64 \<Rightarrow> u64 \<Rightarrow> u64 \<Rightarrow> u64" where
  "ch64 x y z = (x AND y) XOR (NOT x AND z)"

definition maj64 :: "u64 \<Rightarrow> u64 \<Rightarrow> u64 \<Rightarrow> u64" where
  "maj64 x y z = (x AND y) XOR (x AND z) XOR (y AND z)"

definition bsig512_0 :: "u64 \<Rightarrow> u64" where
  "bsig512_0 x = rotr64 28 x XOR rotr64 34 x XOR rotr64 39 x"

definition bsig512_1 :: "u64 \<Rightarrow> u64" where
  "bsig512_1 x = rotr64 14 x XOR rotr64 18 x XOR rotr64 41 x"

definition ssig512_0 :: "u64 \<Rightarrow> u64" where
  "ssig512_0 x = rotr64 1 x XOR rotr64 8 x XOR drop_bit 7 x"

definition ssig512_1 :: "u64 \<Rightarrow> u64" where
  "ssig512_1 x = rotr64 19 x XOR rotr64 61 x XOR drop_bit 6 x"

fun sha512_schedule :: "u64 list \<Rightarrow> u64" where
  "sha512_schedule (w0 # w1 # w2 # w3 # w4 # w5 # w6 # w7 # w8 # w9 # w10 # w11 # w12 # w13
                     # w14 # ws) =
     ssig512_1 w14 + w9 + ssig512_0 w1 + w0"
| "sha512_schedule ws = 0"

fun sha512_round :: "nat \<Rightarrow> u64 \<Rightarrow> sha512_state \<Rightarrow> sha512_state" where
  "sha512_round t w (a, b, c, d, e, f, g, h) =
     (h + bsig512_1 e + ch64 e f g + sha512_k ! t + w + (bsig512_0 a + maj64 a b c),
      a, b, c,
      d + (h + bsig512_1 e + ch64 e f g + sha512_k ! t + w),
      e, f, g)"

function sha512_rounds :: "nat \<Rightarrow> u64 list \<Rightarrow> sha512_state \<Rightarrow> sha512_state" where
  "sha512_rounds t ws s =
     (if t < 80
      then sha512_rounds (t + 1) (tl ws @ [sha512_schedule ws]) (sha512_round t (hd ws) s)
      else s)"
  by pat_completeness auto
termination
  by (relation "measure (\<lambda>(t, ws, s). 80 - t)") auto

declare sha512_rounds.simps [simp del]

fun sha512_add :: "sha512_state \<Rightarrow> sha512_state \<Rightarrow> sha512_state" where
  "sha512_add (h0, h1, h2, h3, h4, h5, h6, h7) (a, b, c, d, e, f, g, h) =
     (h0 + a, h1 + b, h2 + c, h3 + d, h4 + e, h5 + f, h6 + g, h7 + h)"

definition sha512_block :: "sha512_state \<Rightarrow> bytes \<Rightarrow> sha512_state" where
  "sha512_block s blk = sha512_add s (sha512_rounds 0 (map be_word (words64 blk)) s)"

definition sha512_init :: "sha512_state" where
  "sha512_init =
    (0x6A09E667F3BCC908, 0xBB67AE8584CAA73B, 0x3C6EF372FE94F82B, 0xA54FF53A5F1D36F1,
     0x510E527FADE682D1, 0x9B05688C2B3E6C1F, 0x1F83D9ABFB41BD6B, 0x5BE0CD19137E2179)"

definition sha384_init :: "sha512_state" where
  "sha384_init =
    (0xCBBB9D5DC1059ED8, 0x629A292A367CD507, 0x9159015A3070DD17, 0x152FECD8F70E5939,
     0x67332667FFC00B31, 0x8EB44A8768581511, 0xDB0C2E0D64F98FA7, 0x47B5481DBEFA4FA4)"

fun sha512_out :: "sha512_state \<Rightarrow> bytes" where
  "sha512_out (a, b, c, d, e, f, g, h) = concat (map be_bytes64 [a, b, c, d, e, f, g, h])"

fun sha384_out :: "sha512_state \<Rightarrow> bytes" where
  "sha384_out (a, b, c, d, e, f, g, h) = concat (map be_bytes64 [a, b, c, d, e, f])"

definition sha512 :: "bytes \<Rightarrow> bytes" where
  "sha512 m = sha512_out (blocks_fold 128 sha512_block sha512_init (sha_pad128 m))"

definition sha384 :: "bytes \<Rightarrow> bytes" where
  "sha384 m = sha384_out (blocks_fold 128 sha512_block sha384_init (sha_pad128 m))"

subsection \<open>MD5\<close>

definition md5_t :: "u32 list" where
  "md5_t =
    [
     0xD76AA478, 0xE8C7B756, 0x242070DB, 0xC1BDCEEE, 0xF57C0FAF, 0x4787C62A,
     0xA8304613, 0xFD469501, 0x698098D8, 0x8B44F7AF, 0xFFFF5BB1, 0x895CD7BE,
     0x6B901122, 0xFD987193, 0xA679438E, 0x49B40821, 0xF61E2562, 0xC040B340,
     0x265E5A51, 0xE9B6C7AA, 0xD62F105D, 0x02441453, 0xD8A1E681, 0xE7D3FBC8,
     0x21E1CDE6, 0xC33707D6, 0xF4D50D87, 0x455A14ED, 0xA9E3E905, 0xFCEFA3F8,
     0x676F02D9, 0x8D2A4C8A, 0xFFFA3942, 0x8771F681, 0x6D9D6122, 0xFDE5380C,
     0xA4BEEA44, 0x4BDECFA9, 0xF6BB4B60, 0xBEBFBC70, 0x289B7EC6, 0xEAA127FA,
     0xD4EF3085, 0x04881D05, 0xD9D4D039, 0xE6DB99E5, 0x1FA27CF8, 0xC4AC5665,
     0xF4292244, 0x432AFF97, 0xAB9423A7, 0xFC93A039, 0x655B59C3, 0x8F0CCC92,
     0xFFEFF47D, 0x85845DD1, 0x6FA87E4F, 0xFE2CE6E0, 0xA3014314, 0x4E0811A1,
     0xF7537E82, 0xBD3AF235, 0x2AD7D2BB, 0xEB86D391]"

definition md5_s :: "nat list" where
  "md5_s =
    [7, 12, 17, 22, 7, 12, 17, 22, 7, 12, 17, 22, 7, 12, 17, 22,
     5, 9, 14, 20, 5, 9, 14, 20, 5, 9, 14, 20, 5, 9, 14, 20,
     4, 11, 16, 23, 4, 11, 16, 23, 4, 11, 16, 23, 4, 11, 16, 23,
     6, 10, 15, 21, 6, 10, 15, 21, 6, 10, 15, 21, 6, 10, 15, 21]"

type_synonym md5_state = "u32 \<times> u32 \<times> u32 \<times> u32"

definition md5_f :: "nat \<Rightarrow> u32 \<Rightarrow> u32 \<Rightarrow> u32 \<Rightarrow> u32" where
  "md5_f i b c d =
     (if i < 16 then (b AND c) OR (NOT b AND d)
      else if i < 32 then (d AND b) OR (NOT d AND c)
      else if i < 48 then b XOR c XOR d
      else c XOR (b OR NOT d))"

definition md5_g :: "nat \<Rightarrow> nat" where
  "md5_g i =
     (if i < 16 then i
      else if i < 32 then (5 * i + 1) mod 16
      else if i < 48 then (3 * i + 5) mod 16
      else (7 * i) mod 16)"

fun md5_step :: "u32 list \<Rightarrow> nat \<Rightarrow> md5_state \<Rightarrow> md5_state" where
  "md5_step ms i (a, b, c, d) =
     (d, b + rotl32 (md5_s ! i) (md5_f i b c d + a + md5_t ! i + ms ! md5_g i), b, c)"

function md5_steps :: "u32 list \<Rightarrow> nat \<Rightarrow> md5_state \<Rightarrow> md5_state" where
  "md5_steps ms i s = (if i < 64 then md5_steps ms (i + 1) (md5_step ms i s) else s)"
  by pat_completeness auto
termination
  by (relation "measure (\<lambda>(ms, i, s). 64 - i)") auto

declare md5_steps.simps [simp del]

fun md5_add :: "md5_state \<Rightarrow> md5_state \<Rightarrow> md5_state" where
  "md5_add (h0, h1, h2, h3) (a, b, c, d) = (h0 + a, h1 + b, h2 + c, h3 + d)"

definition md5_block :: "md5_state \<Rightarrow> bytes \<Rightarrow> md5_state" where
  "md5_block s blk = md5_add s (md5_steps (map le_word (words32 blk)) 0 s)"

definition md5_init :: "md5_state" where
  "md5_init = (0x67452301, 0xEFCDAB89, 0x98BADCFE, 0x10325476)"

fun md5_out :: "md5_state \<Rightarrow> bytes" where
  "md5_out (a, b, c, d) = concat (map le_bytes32 [a, b, c, d])"

definition md5 :: "bytes \<Rightarrow> bytes" where
  "md5 m = md5_out (blocks_fold 64 md5_block md5_init (md5_pad m))"

subsection \<open>The \<open>hash.Hash\<close> interface and HMAC\<close>

text \<open>
  A running hash: the digest function of its algorithm, the algorithm's block size, and
  the bytes written so far. \<open>Write\<close> appends to the data; \<open>Sum b\<close> appends the digest
  of the data written so far to \<open>b\<close> and leaves the data alone.
\<close>

record hash_Hash =
  digest :: "bytes \<Rightarrow> bytes"
  block_size :: nat
  written :: bytes

definition hash_Write :: "hash_Hash \<Rightarrow> bytes \<Rightarrow> hash_Hash" where
  "hash_Write h p = h\<lparr>written := written h @ p\<rparr>"

definition hash_Sum :: "hash_Hash \<Rightarrow> bytes \<Rightarrow> bytes" where
  "hash_Sum h b = b @ digest h (written h)"

definition sha1_New :: "hash_Hash" where
  "sha1_New = \<lparr>digest = sha1, block_size = 64, written = []\<rparr>"

definition sha256_New :: "hash_Hash" where
  "sha256_New = \<lparr>digest = sha256, block_size = 64, written = []\<rparr>"

definition sha512_New384 :: "hash_Hash" where
  "sha512_New384 = \<lparr>digest = sha384, block_size = 128, written = []\<rparr>"

definition sha512_New :: "hash_Hash" where
  "sha512_New = \<lparr>digest = sha512, block_size = 128, written = []\<rparr>"

definition md5_New :: "hash_Hash" where
  "md5_New = \<lparr>digest = md5, block_size = 64, written = []\<rparr>"

definition xor_byte :: "nat \<Rightarrow> char \<Rightarrow> char" where
  "xor_byte p c = char_of (of_char c XOR p)"

text \<open>
  RFC 2104: a key longer than a block is hashed first, the key is filled with zero bytes
  to a block, and the digest is \<open>H (key XOR opad, H (key XOR ipad, message))\<close>.
\<close>

definition hmac_key :: "(bytes \<Rightarrow> bytes) \<Rightarrow> nat \<Rightarrow> bytes \<Rightarrow> bytes" where
  "hmac_key H n key =
     (if n < length key then H key @ replicate (n - length (H key)) (CHR 0x00)
      else key @ replicate (n - length key) (CHR 0x00))"

definition hmac :: "(bytes \<Rightarrow> bytes) \<Rightarrow> nat \<Rightarrow> bytes \<Rightarrow> bytes \<Rightarrow> bytes" where
  "hmac H n key m =
     H (map (xor_byte 0x5C) (hmac_key H n key) @ H (map (xor_byte 0x36) (hmac_key H n key) @ m))"

definition hmac_New :: "hash_Hash \<Rightarrow> bytes \<Rightarrow> hash_Hash" where
  "hmac_New h key =
     \<lparr>digest = hmac (digest h) (block_size h) key, block_size = block_size h, written = []\<rparr>"

section \<open>Other standard-library functions the client calls\<close>

text \<open>
  \<open>strconv.Atoi\<close> on a platform whose \<open>int\<close> has 64 bits: an optional sign, then one
  or more decimal digits, and the value must lie between \<open>-2^63\<close> and \<open>2^63 - 1\<close>.
  Anything else is an error, of which the client only tests \<open>err == nil\<close>.
\<close>

datatype NumError = ErrSyntax | ErrRange

definition is_digit :: "char \<Rightarrow> bool" where
  "is_digit c = (48 \<le> (of_char c :: nat) \<and> (of_char c :: nat) \<le> 57)"

definition decimal :: "string \<Rightarrow> int" where
  "decimal ds = foldl (\<lambda>n c. n * 10 + (of_char c - 48)) 0 ds"

definition unsigned_part :: "string \<Rightarrow> string" where
  "unsigned_part s = (case s of [] \<Rightarrow> [] | c # cs \<Rightarrow> if c = CHR ''-'' \<or> c = CHR ''+'' then cs else s)"

definition signed_value :: "string \<Rightarrow> int" where
  "signed_value s = (case s of [] \<Rightarrow> 0 | c # cs \<Rightarrow>
     if c = CHR ''-'' then - decimal cs else decimal (unsigned_part s))"

definition Atoi :: "string \<Rightarrow> NumError + int" where
  "Atoi s =
     (if unsigned_part s = [] then Inl ErrSyntax
      else if list_ex (\<lambda>c. \<not> is_digit c) (unsigned_part s) then Inl ErrSyntax
      else if signed_value s < - (2 ^ 63) then Inl ErrRange
      else if 2 ^ 63 \<le> signed_value s then Inl ErrRange
      else Inr (signed_value s))"

text \<open>\<open>fmt.Sprintf("%d", n)\<close>: the decimal digits of an integer.\<close>

function nat_digits :: "nat \<Rightarrow> string" where
  "nat_digits n =
     (if n < 10 then [char_of (48 + n)] else nat_digits (n div 10) @ [char_of (48 + n mod 10)])"
  by pat_completeness auto
termination
  by (relation "measure id") auto

declare nat_digits.simps [simp del]

definition Itoa :: "int \<Rightarrow> string" where
  "Itoa i = (if i < 0 then CHR ''-'' # nat_digits (nat (- i)) else nat_digits (nat i))"

text \<open>
  \<open>strings.Split(s, sep)\<close> for a separator of one byte, the only kind the client uses
  (\<open>"="\<close> and \<open>"/"\<close>): the pieces between the separators, so one piece more than there
  are separators, and one empty piece for the empty string.
\<close>

fun Split :: "string \<Rightarrow> char \<Rightarrow> string list" where
  "Split [] sep = [[]]"
| "Split (c # cs) sep =
     (if c = sep then [] # Split cs sep
      else (case Split cs sep of [] \<Rightarrow> [[c]] | p # ps \<Rightarrow> (c # p) # ps))"

definition ascii_lower :: "char \<Rightarrow> char" where
  "ascii_lower c =
     (if 65 \<le> (of_char c :: nat) \<and> (of_char c :: nat) \<le> 90 then char_of (of_char c + 32 :: nat) else c)"

definition ascii_upper :: "char \<Rightarrow> char" where
  "ascii_upper c =
     (if 97 \<le> (of_char c :: nat) \<and> (of_char c :: nat) \<le> 122 then char_of (of_char c - 32 :: nat) else c)"

text \<open>
  \<open>strings.EqualFold\<close>, restricted to the folding of the ASCII letters. The client
  compares against a hexadecimal digest, whose characters \<open>0-9a-f\<close> have no other
  characters in their Unicode case-folding orbits than their ASCII upper-case forms, so on
  that use the restriction loses nothing.
\<close>

definition EqualFold :: "string \<Rightarrow> string \<Rightarrow> bool" where
  "EqualFold s t = (map ascii_lower s = map ascii_lower t)"

text \<open>
  \<open>url.Values.Get\<close> and \<open>http.Header.Get\<close>: the first value stored under the key, or
  the empty string. A header is stored under its canonical key (first letter and every
  letter after a hyphen in upper case, the others in lower case).
\<close>

definition Values_Get :: "(string \<times> string) list \<Rightarrow> string \<Rightarrow> string" where
  "Values_Get vs k = (case map_of vs k of None \<Rightarrow> [] | Some v \<Rightarrow> v)"

fun canonical_from :: "bool \<Rightarrow> string \<Rightarrow> string" where
  "canonical_from up [] = []"
| "canonical_from up (c # cs) =
     (if up then ascii_upper c else ascii_lower c) # canonical_from (c = CHR ''-'') cs"

definition CanonicalHeaderKey :: "string \<Rightarrow> string" where
  "CanonicalHeaderKey k = canonical_from True k"

definition Header_Get :: "(string \<times> string) list \<Rightarrow> string \<Rightarrow> string" where
  "Header_Get hs k = Values_Get hs (CanonicalHeaderKey k)"

subsection \<open>Time\<close>

text \<open>
  A \<open>time.Duration\<close> is an \<open>int64\<close> count of nanoseconds (read with \<open>sint\<close>), with wrap-around
  arithmetic. A \<open>time.Time\<close> is an instant, modelled as the integer number of
  nanoseconds since the zero \<open>Time\<close> (January 1 of year 1, 00:00 UTC); so the zero value of
  the type is \<open>0\<close>. \<open>time.Now\<close> reads the system clock, which counts from the Unix
  epoch: the reading is a parameter of the model, a natural number of nanoseconds since
  1970. Wall-clock and monotonic readings are not told apart.
\<close>

type_synonym Duration = "64 word"
type_synonym Time = int

definition time_Second :: "Duration" where
  "time_Second = 1000000000"

definition time_Minute :: "Duration" where
  "time_Minute = 60 * time_Second"

definition time_Hour :: "Duration" where
  "time_Hour = 60 * time_Minute"

definition unixToInternal :: "int" where
  "unixToInternal = (1969 * 365 + 1969 div 4 - 1969 div 100 + 1969 div 400) * 86400"

definition time_Now :: "nat \<Rightarrow> Time" where
  "time_Now clock = unixToInternal * 1000000000 + int clock"

definition Time_Add :: "Time \<Rightarrow> Duration \<Rightarrow> Time" where
  "Time_Add t d = t + sint d"

definition Time_Before :: "Time \<Rightarrow> Time \<Rightarrow> bool" where
  "Time_Before t u = (t < u)"

subsection \<open>\<open>http.ResponseWriter\<close>\<close>

text \<open>
  What the handler has put on the wire: the status code once the header is written, and
  the body bytes. The first \<open>Write\<close> writes the header with status 200 when none was
  written, also when it writes no bytes; a \<open>WriteHeader\<close> after the header is written
  changes nothing. \<open>http.Error\<close> calls \<open>WriteHeader\<close> with its code and prints the
  message with \<open>Fprintln\<close>, so a line feed follows it.
\<close>

record ResponseWriter =
  resp_status :: "nat option"
  resp_body :: bytes

definition new_ResponseWriter :: "ResponseWriter" where
  "new_ResponseWriter = \<lparr>resp_status = None, resp_body = []\<rparr>"

definition WriteHeader :: "nat \<Rightarrow> ResponseWriter \<Rightarrow> ResponseWriter" where
  "WriteHeader code w = (case resp_status w of None \<Rightarrow> w\<lparr>resp_status := Some code\<rparr> | Some c \<Rightarrow> w)"

definition Write :: "bytes \<Rightarrow> ResponseWriter \<Rightarrow> ResponseWriter" where
  "Write b w = (WriteHeader 200 w)\<lparr>resp_body := resp_body w @ b\<rparr>"

definition http_Error :: "string \<Rightarrow> nat \<Rightarrow> ResponseWriter \<Rightarrow> ResponseWriter" where
  "http_Error msg code w = Write (msg @ [CHR 0x0A]) (WriteHeader code w)"

definition StatusBadRequest :: "nat" where
  "StatusBadRequest = 400"

text \<open>The status the peer receives: 200 when the handler returns without writing.\<close>

definition final_status :: "ResponseWriter \<Rightarrow> nat" where
  "final_status w = (case resp_status w of None \<Rightarrow> 200 | Some c \<Rightarrow> c)"

subsection \<open>\<open>container/ring\<close>\<close>

text \<open>
  A ring is held by a pointer to one of its elements. It is modelled by the list of the
  elements' values starting at that element, in the order \<open>Next\<close> visits them; \<open>nil\<close>
  values are \<open>None\<close>. \<open>Next\<close> moves the pointer one element on, \<open>Do\<close> visits every
  element once, starting at the pointer.
\<close>

type_synonym 'a ring = "'a option list"

definition ring_New :: "nat \<Rightarrow> 'a ring" where
  "ring_New n = replicate n None"

definition ring_set_Value :: "'a \<Rightarrow> 'a ring \<Rightarrow> 'a ring" where
  "ring_set_Value v r = (case r of [] \<Rightarrow> [] | x # xs \<Rightarrow> Some v # xs)"

definition ring_Next :: "'a ring \<Rightarrow> 'a ring" where
  "ring_Next r = rotate1 r"

definition ring_Do :: "('a option \<Rightarrow> 's \<Rightarrow> 's) \<Rightarrow> 'a ring \<Rightarrow> 's \<Rightarrow> 's" where
  "ring_Do f r s = fold f r s"

section \<open>The subscriber client\<close>

subsection \<open>Data\<close>

text \<open>
  The application's callback \<open>func(string, []byte)\<close> is opaque to the client: a handler
  is modelled by a name, and calling it by an entry in the log of calls.
\<close>

datatype handler = Handler nat

record subscription =
  hub :: string
  topic :: string
  secret :: string
  sub_id :: int
  handler :: handler
  lease :: Duration
  verifiedAt :: Time

text \<open>A request handed to \<open>httpRequester.Do\<close>: a POST of a form to a URL.\<close>

record outbound =
  out_url :: string
  out_form :: "(string \<times> string) list"
  out_header :: "(string \<times> string) list"

text \<open>
  The map \<open>subscriptions\<close> is an association list with one entry per key; \<open>range\<close>
  visits it in list order, one of the orders Go may choose. \<open>history\<close> is the ring of
  the digests of past messages.
\<close>

record Client =
  self :: string
  from_hdr :: string
  running :: bool
  subscriptions :: "(string \<times> subscription) list"
  history :: "bytes ring"

text \<open>
  Everything a call can change: the client, the package-level counter of subscription
  ids, the requests sent to hubs and the calls of application handlers, both oldest first.
\<close>

record world =
  client :: Client
  subscriptionIdCounter :: int
  sent :: "outbound list"
  invoked :: "(handler \<times> string \<times> bytes) list"

text \<open>
  An inbound request: the path and the parsed query of its URL, its header, and what
  \<open>ioutil.ReadAll\<close> returns for its body (\<open>None\<close> when reading fails).
\<close>

record request =
  path :: string
  query :: "(string \<times> string) list"
  headers :: "(string \<times> string) list"
  body :: "bytes option"

subsection \<open>Operations\<close>

definition SecretKey :: "subscription \<Rightarrow> string" where
  "SecretKey s =
     hex_EncodeToString (hash_Sum (hash_Write (hmac_New sha1_New (secret s)) (topic s)) [])"

definition NewClient :: "string \<Rightarrow> string \<Rightarrow> Client" where
  "NewClient self0 from0 =
     \<lparr>self = self0, from_hdr = from0 @ '' (gohubbub)'', running = False,
      subscriptions = [], history = ring_New 50\<rparr>"

definition HasSubscription :: "Client \<Rightarrow> string \<Rightarrow> bool" where
  "HasSubscription c t = (case map_of (subscriptions c) t of None \<Rightarrow> False | Some s \<Rightarrow> True)"

definition formatCallbackURL :: "Client \<Rightarrow> int \<Rightarrow> string" where
  "formatCallbackURL c callback = self c @ ''/push-callback/'' @ Itoa callback"

text \<open>
  A call returns, or it panics. Either way it leaves a world behind: \<open>Panics w\<close> is a
  panic with the world as it is at that moment.
\<close>

datatype outcome = Returns world | Panics world

fun state_of :: "outcome \<Rightarrow> world" where
  "state_of (Returns w) = w"
| "state_of (Panics w) = w"

fun returns :: "outcome \<Rightarrow> bool" where
  "returns (Returns w) = True"
| "returns (Panics w) = False"

text \<open>
  \<open>http.NewRequest("POST", u, body)\<close> parses \<open>u\<close> with \<open>url.Parse\<close> and gives a nil
  request (with an error) when that fails; with the method \<open>POST\<close> and a buffer as body
  nothing else fails. Which strings \<open>url.Parse\<close> accepts is the parameter \<open>parses\<close> of
  every operation that makes a request. The new request has an empty header.
\<close>

definition http_NewRequest :: "(string \<Rightarrow> bool) \<Rightarrow> string \<Rightarrow> (string \<times> string) list
    \<Rightarrow> outbound option" where
  "http_NewRequest parses u form =
     (if parses u then Some \<lparr>out_url = u, out_form = form, out_header = []\<rparr> else None)"

definition Header_Add :: "string \<Rightarrow> string \<Rightarrow> outbound \<Rightarrow> outbound" where
  "Header_Add k v req = req\<lparr>out_header := out_header req @ [(CanonicalHeaderKey k, v)]\<rparr>"

text \<open>
  The two requests to the hub. The source discards the error of \<open>http.NewRequest\<close> and
  adds to the header of the request at once: on a nil request that is a nil dereference,
  a panic, before anything is handed to \<open>httpRequester.Do\<close>. What \<open>Do\<close> and the hub
  answer is only logged, so the model records the request handed to \<open>Do\<close> in \<open>sent\<close>
  and nothing else.
\<close>

definition makeSubscriptionRequest :: "(string \<Rightarrow> bool) \<Rightarrow> subscription \<Rightarrow> world \<Rightarrow> outcome" where
  "makeSubscriptionRequest parses s w =
     (let callbackUrl = formatCallbackURL (client w) (sub_id s);
          body0 = [(''hub.callback'', callbackUrl), (''hub.topic'', topic s),
                   (''hub.mode'', ''subscribe'')]
                  @ (if 0 < length (secret s) then [(''hub.secret'', SecretKey s)] else [])
      in case http_NewRequest parses (hub s) body0 of
           None \<Rightarrow> Panics w
         | Some req \<Rightarrow>
             Returns (w\<lparr>sent := sent w @
               [Header_Add ''From'' (from_hdr (client w))
                  (Header_Add ''Content-Type'' ''application/x-www-form-urlencoded'' req)]\<rparr>))"

definition makeUnsubscribeRequeast :: "(string \<Rightarrow> bool) \<Rightarrow> subscription \<Rightarrow> world \<Rightarrow> outcome" where
  "makeUnsubscribeRequeast parses s w =
     (let body0 = [(''hub.callback'', formatCallbackURL (client w) (sub_id s)),
                   (''hub.topic'', topic s), (''hub.mode'', ''unsubscribe'')]
      in case http_NewRequest parses (hub s) body0 of
           None \<Rightarrow> Panics w
         | Some req \<Rightarrow>
             Returns (w\<lparr>sent := sent w @
               [Header_Add ''From'' (from_hdr (client w))
                  (Header_Add ''Content-Type'' ''application/x-www-form-urlencoded'' req)]\<rparr>))"

definition set_subscriptions :: "(string \<times> subscription) list \<Rightarrow> world \<Rightarrow> world" where
  "set_subscriptions subs w = w\<lparr>client := (client w)\<lparr>subscriptions := subs\<rparr>\<rparr>"

definition Subscribe :: "(string \<Rightarrow> bool) \<Rightarrow> string \<Rightarrow> string \<Rightarrow> string \<Rightarrow> handler \<Rightarrow> world
    \<Rightarrow> outcome" where
  "Subscribe parses hub0 topic0 secret0 handler0 w =
     (let s = \<lparr>hub = hub0, topic = topic0, secret = secret0, sub_id = subscriptionIdCounter w,
                handler = handler0, lease = 0, verifiedAt = 0\<rparr>;
          w1 = (set_subscriptions (AList.update topic0 s (subscriptions (client w))) w)
                 \<lparr>subscriptionIdCounter := subscriptionIdCounter w + 1\<rparr>
      in if running (client w1) then makeSubscriptionRequest parses s w1 else Returns w1)"

definition Unsubscribe :: "(string \<Rightarrow> bool) \<Rightarrow> string \<Rightarrow> world \<Rightarrow> outcome" where
  "Unsubscribe parses topic0 w =
     (case map_of (subscriptions (client w)) topic0 of
        Some s \<Rightarrow>
          (let w1 = set_subscriptions (AList.delete topic0 (subscriptions (client w))) w
           in if running (client w1) then makeUnsubscribeRequeast parses s w1 else Returns w1)
      | None \<Rightarrow> Returns w)"

text \<open>
  One round of the loop of \<open>ensureSubscribed\<close>, for one record and the clock reading
  taken in that round.
\<close>

definition renew :: "(string \<Rightarrow> bool) \<Rightarrow> nat \<Rightarrow> subscription \<Rightarrow> world \<Rightarrow> outcome" where
  "renew parses clock s w =
     (let oneHourAgo = Time_Add (time_Now clock) (- time_Hour);
          expireTime = Time_Add (verifiedAt s) (lease s)
      in if Time_Before expireTime oneHourAgo then makeSubscriptionRequest parses s w
         else Returns w)"

text \<open>
  The loop reads the clock anew for every record: \<open>clock i\<close> is the reading in round
  \<open>i\<close>. A panic in one round ends the loop. Re-arming the timer for the next minute is
  outside the model.
\<close>

fun ensureSubscribed_from :: "(string \<Rightarrow> bool) \<Rightarrow> (nat \<Rightarrow> nat) \<Rightarrow> nat \<Rightarrow> subscription list
    \<Rightarrow> world \<Rightarrow> outcome" where
  "ensureSubscribed_from parses clock i [] w = Returns w"
| "ensureSubscribed_from parses clock i (s # ss) w =
     (case renew parses (clock i) s w of
        Panics w1 \<Rightarrow> Panics w1
      | Returns w1 \<Rightarrow> ensureSubscribed_from parses clock (Suc i) ss w1)"

definition ensureSubscribed :: "(string \<Rightarrow> bool) \<Rightarrow> (nat \<Rightarrow> nat) \<Rightarrow> world \<Rightarrow> outcome" where
  "ensureSubscribed parses clock w =
     ensureSubscribed_from parses clock 0 (map snd (subscriptions (client w))) w"

definition Start :: "(string \<Rightarrow> bool) \<Rightarrow> (nat \<Rightarrow> nat) \<Rightarrow> world \<Rightarrow> outcome" where
  "Start parses clock w =
     (if running (client w) then Returns w
      else ensureSubscribed parses clock (w\<lparr>client := (client w)\<lparr>running := True\<rparr>\<rparr>))"

text \<open>
  The request that reaches \<open>Do\<close> for a record whose hub parses, written out: the URL
  of the hub, the form and the two header fields.
\<close>

definition subscribeRequest :: "Client \<Rightarrow> subscription \<Rightarrow> outbound" where
  "subscribeRequest c s =
     \<lparr>out_url = hub s,
      out_form = [(''hub.callback'', formatCallbackURL c (sub_id s)),
                  (''hub.topic'', topic s),
                  (''hub.mode'', ''subscribe'')]
                 @ (if 0 < length (secret s) then [(''hub.secret'', SecretKey s)] else []),
      out_header = [(''Content-Type'', ''application/x-www-form-urlencoded''),
                    (''From'', from_hdr c)]\<rparr>"

definition unsubscribeRequest :: "Client \<Rightarrow> subscription \<Rightarrow> outbound" where
  "unsubscribeRequest c s =
     \<lparr>out_url = hub s,
      out_form = [(''hub.callback'', formatCallbackURL c (sub_id s)),
                  (''hub.topic'', topic s),
                  (''hub.mode'', ''unsubscribe'')],
      out_header = [(''Content-Type'', ''application/x-www-form-urlencoded''),
                    (''From'', from_hdr c)]\<rparr>"

definition subscriptionForPath :: "Client \<Rightarrow> string \<Rightarrow> subscription option" where
  "subscriptionForPath c p =
     (let parts = Split p (CHR ''/'')
      in if length parts \<noteq> 3 then None
         else (case Atoi (parts ! 2) of
                 Inl err \<Rightarrow> None
               | Inr i \<Rightarrow> find (\<lambda>s. sub_id s = i) (map snd (subscriptions c))))"

text \<open>
  \<open>broadcast\<close>. The value called \<open>hash\<close> is \<open>md5.New().Sum(body)\<close>: the sum of a
  hash to which nothing was written, appended to \<open>body\<close>.
\<close>

definition message_hash :: "bytes \<Rightarrow> bytes" where
  "message_hash body0 = hash_Sum md5_New body0"

definition is_unique :: "bytes \<Rightarrow> bytes ring \<Rightarrow> bool" where
  "is_unique hash r = ring_Do (\<lambda>v unique. if v = Some hash then False else unique) r True"

definition broadcast :: "subscription \<Rightarrow> string \<Rightarrow> bytes \<Rightarrow> world \<Rightarrow> world" where
  "broadcast s contentType body0 w =
     (if is_unique (message_hash body0) (history (client w))
      then w\<lparr>client := (client w)\<lparr>history :=
                 ring_Next (ring_set_Value (message_hash body0) (history (client w)))\<rparr>,
             invoked := invoked w @ [(handler s, contentType, body0)]\<rparr>
      else w)"

text \<open>The algorithm names the client recognizes in the signature header.\<close>

definition recognize :: "string \<Rightarrow> hash_Hash option" where
  "recognize alg =
     (if alg = ''sha1'' then Some sha1_New
      else if alg = ''sha256'' then Some sha256_New
      else if alg = ''sha384'' then Some sha512_New384
      else if alg = ''sha512'' then Some sha512_New
      else None)"

text \<open>
  The branch of \<open>handleCallback\<close> for an update notification to a known subscription.
  The empty \<open>Write\<close> comes first, as in the source. The source starts \<open>broadcast\<close> in a
  goroutine of its own; here it runs to its end before the handler returns.
\<close>

definition handleUpdate :: "subscription \<Rightarrow> request \<Rightarrow> bytes \<Rightarrow> ResponseWriter \<Rightarrow> world
    \<Rightarrow> ResponseWriter \<times> world" where
  "handleUpdate s req requestBody resp0 w =
     (let resp = Write [] resp0;
          signature = Split (Header_Get (headers req) ''x-hub-signature'') (CHR ''='');
          dispatched = broadcast s (Header_Get (headers req) ''Content-Type'') requestBody w
      in if 0 < length (secret s) then
           (if length signature \<noteq> 2 then
              (http_Error ''Invalid Subscription'' StatusBadRequest resp, w)
            else (case recognize (signature ! 0) of
                    None \<Rightarrow> (http_Error ''Invalid Signature'' StatusBadRequest resp, w)
                  | Some hashAlg \<Rightarrow>
                      if EqualFold (signature ! 1)
                           (hex_EncodeToString
                              (hash_Sum (hash_Write (hmac_New hashAlg (SecretKey s)) requestBody) []))
                      then (resp, dispatched)
                      else (http_Error ''Invalid Signature'' StatusBadRequest resp, w)))
         else (resp, dispatched))"

text \<open>
  The \<open>case "subscribe"\<close> of \<open>handleCallback\<close>: the record of the topic is marked as
  verified now, takes the lease the hub grants when \<open>Atoi\<close> reads one, and the challenge
  is written back.
\<close>

definition handleSubscribe :: "nat \<Rightarrow> request \<Rightarrow> ResponseWriter \<Rightarrow> world
    \<Rightarrow> ResponseWriter \<times> world" where
  "handleSubscribe clock req resp w =
     (case map_of (subscriptions (client w)) (Values_Get (query req) ''hub.topic'') of
        Some s \<Rightarrow>
          (let s1 = s\<lparr>verifiedAt := time_Now clock\<rparr>;
               s2 = (case Atoi (Values_Get (query req) ''hub.lease_seconds'') of
                       Inr n \<Rightarrow> s1\<lparr>lease := time_Second * word_of_int n\<rparr>
                     | Inl err \<Rightarrow> s1)
           in (Write (Values_Get (query req) ''hub.challenge'') resp,
               set_subscriptions
                 (AList.update (Values_Get (query req) ''hub.topic'') s2 (subscriptions (client w))) w))
      | None \<Rightarrow> (http_Error ''Unexpected subscription'' StatusBadRequest resp, w))"

text \<open>
  The \<open>case "unsubscribe"\<close>: the challenge is written back only when the topic is no
  longer in the registry.
\<close>

definition handleUnsubscribe :: "request \<Rightarrow> ResponseWriter \<Rightarrow> world \<Rightarrow> ResponseWriter \<times> world" where
  "handleUnsubscribe req resp w =
     (case map_of (subscriptions (client w)) (Values_Get (query req) ''hub.topic'') of
        None \<Rightarrow> (Write (Values_Get (query req) ''hub.challenge'') resp, w)
      | Some s \<Rightarrow> (http_Error ''Unexpected unsubscribe'' StatusBadRequest resp, w))"

text \<open>
  \<open>handleCallback\<close>, with the reading of the clock as a parameter. It starts from a
  response to which nothing was written and returns what was written, with the world
  after the call.
\<close>

definition handleCallback :: "nat \<Rightarrow> request \<Rightarrow> world \<Rightarrow> ResponseWriter \<times> world" where
  "handleCallback clock req w =
     (case body req of
        None \<Rightarrow> (new_ResponseWriter, w)
      | Some requestBody \<Rightarrow>
          (let mode = Values_Get (query req) ''hub.mode''
           in if mode = ''subscribe'' then handleSubscribe clock req new_ResponseWriter w
              else if mode = ''unsubscribe'' then handleUnsubscribe req new_ResponseWriter w
              else if mode = ''denied'' then (Write [] new_ResponseWriter, w)
              else (case subscriptionForPath (client w) (path req) of
                      None \<Rightarrow> (http_Error ''Unknown subscription'' StatusBadRequest new_ResponseWriter, w)
                    | Some s \<Rightarrow> handleUpdate s req requestBody new_ResponseWriter w)))"

subsection \<open>Update notifications in sequence\<close>

text \<open>
  The checks of the signature in \<open>handleCallback\<close>, gathered: they all pass, or the
  subscription has no secret.
\<close>

definition passes_signature :: "subscription \<Rightarrow> request \<Rightarrow> bytes \<Rightarrow> bool" where
  "passes_signature s req requestBody =
     (if 0 < length (secret s) then
        length (Split (Header_Get (headers req) ''x-hub-signature'') (CHR ''='')) = 2
        \<and> (case recognize (Split (Header_Get (headers req) ''x-hub-signature'') (CHR ''='') ! 0) of
             None \<Rightarrow> False
           | Some hashAlg \<Rightarrow>
               EqualFold (Split (Header_Get (headers req) ''x-hub-signature'') (CHR ''='') ! 1)
                 (hex_EncodeToString
                    (hash_Sum (hash_Write (hmac_New hashAlg (SecretKey s)) requestBody) [])))
      else True)"

text \<open>
  A request is an update notification that \<open>handleCallback\<close> hands to \<open>broadcast\<close>
  for the subscription \<open>s\<close>: its body can be read, its \<open>hub.mode\<close> is none of the three
  the handler knows, its path leads to \<open>s\<close>, and its signature passes.
\<close>

definition is_update :: "world \<Rightarrow> request \<Rightarrow> subscription \<Rightarrow> bool" where
  "is_update w req s =
     (case body req of
        None \<Rightarrow> False
      | Some requestBody \<Rightarrow>
          Values_Get (query req) ''hub.mode'' \<noteq> ''subscribe''
          \<and> Values_Get (query req) ''hub.mode'' \<noteq> ''unsubscribe''
          \<and> Values_Get (query req) ''hub.mode'' \<noteq> ''denied''
          \<and> subscriptionForPath (client w) (path req) = Some s
          \<and> passes_signature s req requestBody)"

definition body_of :: "request \<Rightarrow> bytes" where
  "body_of req = (case body req of None \<Rightarrow> [] | Some requestBody \<Rightarrow> requestBody)"

text \<open>The entry of the log of calls when the handler of \<open>s\<close> is called for a request.\<close>

definition call_of :: "subscription \<Rightarrow> request \<Rightarrow> handler \<times> string \<times> bytes" where
  "call_of s req = (handler s, Header_Get (headers req) ''Content-Type'', body_of req)"

text \<open>Callbacks handled one after the other; the responses are dropped.\<close>

fun deliver :: "nat \<Rightarrow> request list \<Rightarrow> world \<Rightarrow> world" where
  "deliver clock [] w = w"
| "deliver clock (req # reqs) w = deliver clock reqs (snd (handleCallback clock req w))"

subsection \<open>A client to run the operations on\<close>

text \<open>
  A verdict of \<open>url.Parse\<close> for the examples. Of the strings they use as hubs it accepts
  \<open>http://hub.example\<close> and rejects the single colon (a URL without protocol scheme),
  as \<open>url.Parse\<close> does; what it says about other strings plays no part.
\<close>

definition parses_example :: "string \<Rightarrow> bool" where
  "parses_example u = (u \<noteq> '':'')"

text \<open>
  A new client of the subscriber at \<open>http://sub.example\<close>, and the same client after
  subscribing to a topic with a secret (which gets the id 0) and to one without (id 1).
\<close>

definition new_world :: "world" where
  "new_world =
     \<lparr>client = NewClient ''http://sub.example'' ''app'', subscriptionIdCounter = 0,
      sent = [], invoked = []\<rparr>"

definition two_topics :: "world" where
  "two_topics =
     state_of (Subscribe parses_example ''http://hub.example'' ''http://t/b'' [] (Handler 2)
       (state_of (Subscribe parses_example ''http://hub.example'' ''http://t/a'' ''s3cr3t''
          (Handler 1) new_world)))"

text \<open>
  The same with the single colon as the hub of the first topic: \<open>Subscribe\<close> takes
  any string.
\<close>

definition bad_hub :: "world" where
  "bad_hub =
     state_of (Subscribe parses_example ''http://hub.example'' ''http://t/b'' [] (Handler 2)
       (state_of (Subscribe parses_example '':'' ''http://t/a'' ''s3cr3t''
          (Handler 1) new_world)))"

definition topic_a :: "subscription" where
  "topic_a = \<lparr>hub = ''http://hub.example'', topic = ''http://t/a'', secret = ''s3cr3t'',
              sub_id = 0, handler = Handler 1, lease = 0, verifiedAt = 0\<rparr>"

definition topic_b :: "subscription" where
  "topic_b = \<lparr>hub = ''http://hub.example'', topic = ''http://t/b'', secret = [],
              sub_id = 1, handler = Handler 2, lease = 0, verifiedAt = 0\<rparr>"

text \<open>A callback with the given query parameters, header and body.\<close>

definition callback :: "string \<Rightarrow> (string \<times> string) list \<Rightarrow> (string \<times> string) list \<Rightarrow> bytes
    \<Rightarrow> request" where
  "callback p q h b = \<lparr>path = p, query = q, headers = h, body = Some b\<rparr>"

text \<open>
  A verification callback of the hub: the mode, the topic and a challenge, with further
  query parameters \<open>extra\<close>.
\<close>

definition verification :: "string \<Rightarrow> string \<Rightarrow> (string \<times> string) list \<Rightarrow> request" where
  "verification mode T extra =
     callback ''/push-callback/0''
       ([(''hub.mode'', mode), (''hub.topic'', T), (''hub.challenge'', ''xyz'')] @ extra) [] []"

text \<open>
  An update notification for the topic without secret, whose body is \<open>n\<close> letters.
\<close>

definition numbered :: "nat \<Rightarrow> request" where
  "numbered n =
     callback ''/push-callback/1'' [] [(''Content-Type'', ''text/plain'')] (replicate n (CHR ''x''))"

section \<open>Responses, verification callbacks and renewal\<close>


lemma Write_new [simp]:
  "Write b new_ResponseWriter = \<lparr>resp_status = Some 200, resp_body = b\<rparr>"
  by (simp add: Write_def WriteHeader_def new_ResponseWriter_def)

lemma http_Error_new [simp]:
  "http_Error msg code new_ResponseWriter = \<lparr>resp_status = Some code, resp_body = msg @ [CHR 0x0A]\<rparr>"
  by (simp add: http_Error_def Write_def WriteHeader_def new_ResponseWriter_def)

lemma http_Error_written [simp]:
  "http_Error msg code \<lparr>resp_status = Some c, resp_body = b\<rparr>
     = \<lparr>resp_status = Some c, resp_body = b @ msg @ [CHR 0x0A]\<rparr>"
  by (simp add: http_Error_def Write_def WriteHeader_def)

lemma map_of_set_subscriptions [simp]:
  "subscriptions (client (set_subscriptions subs w)) = subs"
  by (simp add: set_subscriptions_def)

lemma Atoi_empty: "Atoi [] = Inl ErrSyntax"
  by (simp add: Atoi_def unsigned_part_def)

lemma Values_Get_absent: "map_of vs k = None \<Longrightarrow> Values_Get vs k = []"
  by (simp add: Values_Get_def)

text \<open>
  Claim C8, as amended. For every topic \<open>T\<close> with no entry in the registry, a callback
  whose body is read, with \<open>hub.mode=subscribe\<close> and \<open>hub.topic=T\<close>, is answered with
  status 400 and the body \<open>Unexpected subscription\<close> followed by a line feed, and nothing
  changes: not the registry, not a record, not the rest of the state.
\<close>
theorem subscribe_callback_unknown_topic:
  assumes "body req = Some b"
    and "Values_Get (query req) ''hub.mode'' = ''subscribe''"
    and "Values_Get (query req) ''hub.topic'' = T"
    and "map_of (subscriptions (client w)) T = None"
  shows "handleCallback clock req w =
           (\<lparr>resp_status = Some 400, resp_body = ''Unexpected subscription'' @ [CHR 0x0A]\<rparr>, w)"
  using assms by (simp add: handleCallback_def handleSubscribe_def StatusBadRequest_def)

text \<open>
  Claim C10. For every topic \<open>T\<close> with an entry in the registry, a callback whose body is
  read, with \<open>hub.mode=subscribe\<close>, \<open>hub.topic=T\<close> and a \<open>hub.lease_seconds\<close> that
  is absent or that \<open>Atoi\<close> rejects, is answered with status 200 and the challenge as
  body, and leaves under \<open>T\<close> the record with \<open>verifiedAt\<close> the clock reading and
  every other field, the lease among them, as it was.
\<close>
theorem subscribe_callback_bad_lease:
  assumes "body req = Some b"
    and "Values_Get (query req) ''hub.mode'' = ''subscribe''"
    and "Values_Get (query req) ''hub.topic'' = T"
    and "map_of (subscriptions (client w)) T = Some s"
    and "map_of (query req) ''hub.lease_seconds'' = None
         \<or> isl (Atoi (Values_Get (query req) ''hub.lease_seconds''))"
  shows "fst (handleCallback clock req w)
           = \<lparr>resp_status = Some 200, resp_body = Values_Get (query req) ''hub.challenge''\<rparr>
       \<and> map_of (subscriptions (client (snd (handleCallback clock req w)))) T
           = Some (s\<lparr>verifiedAt := time_Now clock\<rparr>)
       \<and> lease (s\<lparr>verifiedAt := time_Now clock\<rparr>) = lease s"
proof -
  have "isl (Atoi (Values_Get (query req) ''hub.lease_seconds''))"
    using assms(5) by (auto simp: Values_Get_absent Atoi_empty)
  then obtain e where "Atoi (Values_Get (query req) ''hub.lease_seconds'') = Inl e"
    by (cases "Atoi (Values_Get (query req) ''hub.lease_seconds'')") auto
  then show ?thesis
    using assms(1-4)
    by (simp add: handleCallback_def handleSubscribe_def update_conv')
qed



lemma sint_of_int64:
  "- (2 ^ 63) \<le> k \<Longrightarrow> k < 2 ^ 63 \<Longrightarrow> sint (word_of_int k :: 64 word) = k"
  by (simp add: sint_sbintrunc' signed_take_bit_int_eq_self)

lemma lease_seconds_in_range:
  assumes "- 9223372036 \<le> n" and "n \<le> 9223372036"
  shows "sint (time_Second * word_of_int n :: Duration) = n * 1000000000"
proof -
  have a: "sint (word_of_int (1000000000 * n) :: 64 word) = 1000000000 * n"
    by (rule sint_of_int64) (use assms in auto)
  have b: "(word_of_int (1000000000 * n) :: 64 word) = time_Second * word_of_int n"
    by (simp add: time_Second_def)
  show ?thesis
    using a unfolding b by (simp add: mult.commute)
qed

text \<open>
  Claim C1, as amended. For every topic \<open>T\<close> with an entry in the registry, a callback
  whose body is read, with \<open>hub.mode=subscribe\<close>, \<open>hub.topic=T\<close> and a
  \<open>hub.lease_seconds\<close> that \<open>Atoi\<close> reads as an integer \<open>n\<close> between
  \<open>-9223372036\<close> and \<open>9223372036\<close>, is answered with status 200 and the challenge as
  body, and leaves under \<open>T\<close> the record with \<open>verifiedAt\<close> the clock reading and
  \<open>lease\<close> \<open>n\<close> seconds, that is \<open>n * 10^9\<close> nanoseconds.
\<close>
theorem subscribe_callback_verifies:
  assumes "body req = Some b"
    and "Values_Get (query req) ''hub.mode'' = ''subscribe''"
    and "Values_Get (query req) ''hub.topic'' = T"
    and "map_of (subscriptions (client w)) T = Some s"
    and "Atoi (Values_Get (query req) ''hub.lease_seconds'') = Inr n"
    and "- 9223372036 \<le> n" and "n \<le> 9223372036"
  shows "fst (handleCallback clock req w)
           = \<lparr>resp_status = Some 200, resp_body = Values_Get (query req) ''hub.challenge''\<rparr>
       \<and> map_of (subscriptions (client (snd (handleCallback clock req w)))) T
           = Some (s\<lparr>verifiedAt := time_Now clock, lease := time_Second * word_of_int n\<rparr>)
       \<and> sint (time_Second * word_of_int n :: Duration) = n * 1000000000"
  using assms
  by (simp add: handleCallback_def handleSubscribe_def update_conv' lease_seconds_in_range)

lemma sint_hour: "sint (- time_Hour) = - 3600000000000"
  by (simp add: time_Hour_def time_Minute_def time_Second_def)

lemma expired_iff:
  "Time_Before (Time_Add (verifiedAt s) (lease s)) (Time_Add (time_Now n) (- time_Hour))
     \<longleftrightarrow> verifiedAt s + sint (lease s) < time_Now n - 3600000000000"
  by (simp add: Time_Before_def Time_Add_def sint_hour)

lemma canonical_content_type: "CanonicalHeaderKey ''Content-Type'' = ''Content-Type''"
  by (simp add: CanonicalHeaderKey_def ascii_upper_def ascii_lower_def char_of_def bit_0)

lemma canonical_from: "CanonicalHeaderKey ''From'' = ''From''"
  by (simp add: CanonicalHeaderKey_def ascii_upper_def ascii_lower_def char_of_def bit_0)

text \<open>The two requests: made and handed to \<open>Do\<close> when the hub parses, a panic when not.\<close>

lemma makeSubscriptionRequest_eq:
  "makeSubscriptionRequest parses s w =
     (if parses (hub s) then Returns (w\<lparr>sent := sent w @ [subscribeRequest (client w) s]\<rparr>)
      else Panics w)"
  by (simp add: makeSubscriptionRequest_def http_NewRequest_def Header_Add_def Let_def
      subscribeRequest_def canonical_content_type canonical_from)

lemma makeUnsubscribeRequeast_eq:
  "makeUnsubscribeRequeast parses s w =
     (if parses (hub s) then Returns (w\<lparr>sent := sent w @ [unsubscribeRequest (client w) s]\<rparr>)
      else Panics w)"
  by (simp add: makeUnsubscribeRequeast_def http_NewRequest_def Header_Add_def Let_def
      unsubscribeRequest_def canonical_content_type canonical_from)

lemma renew_eq:
  "renew parses n s w =
     (if verifiedAt s + sint (lease s) < time_Now n - 3600000000000
      then (if parses (hub s)
            then Returns (w\<lparr>sent := sent w @ [subscribeRequest (client w) s]\<rparr>)
            else Panics w)
      else Returns w)"
  by (simp add: renew_def Let_def expired_iff makeSubscriptionRequest_eq)

text \<open>A record that is due and whose hub does not parse ends the loop with a panic.\<close>

lemma ensureSubscribed_from_panics:
  assumes "verifiedAt s + sint (lease s) < time_Now (clock i) - 3600000000000"
    and "\<not> parses (hub s)"
  shows "ensureSubscribed_from parses clock i (s # ss) w = Panics w"
  using assms by (simp add: renew_eq)





lemma Unsubscribe_eq:
  assumes "map_of (subscriptions (client w)) T = Some s"
  shows "Unsubscribe parses T w =
     (if running (client w) \<and> \<not> parses (hub s)
      then Panics (set_subscriptions (AList.delete T (subscriptions (client w))) w)
      else Returns ((set_subscriptions (AList.delete T (subscriptions (client w))) w)
             \<lparr>sent := if running (client w)
                       then sent w @ [unsubscribeRequest
                              ((client w)\<lparr>subscriptions := AList.delete T (subscriptions (client w))\<rparr>) s]
                       else sent w\<rparr>))"
  using assms
  by (simp add: Unsubscribe_def Let_def makeUnsubscribeRequeast_eq set_subscriptions_def)

lemma Unsubscribe_lookup:
  "map_of (subscriptions (client (state_of (Unsubscribe parses T w)))) T' =
     (if T' = T then None else map_of (subscriptions (client w)) T')"
  by (auto simp: Unsubscribe_def Let_def makeUnsubscribeRequeast_eq set_subscriptions_def
      delete_conv' split: option.splits)

text \<open>
  Claim C5, as amended. For every topic \<open>T\<close> with an entry in the registry,
  \<open>Unsubscribe T\<close> leaves the registry with the entry removed, whether or not the client
  is running: the request to the hub is made after the removal, only when the client is
  running, and the call returns unless that request runs into the panic on a hub that does
  not parse. After that, a callback with \<open>hub.mode=unsubscribe\<close> and \<open>hub.topic=T\<close> is
  answered with status 200 and the challenge as body; while the entry is still there, the
  same callback is answered with status 400 and the body \<open>Unexpected unsubscribe\<close>
  followed by a line feed.
\<close>
theorem unsubscribe_removes_then_confirms:
  assumes "map_of (subscriptions (client w)) T = Some s"
  shows "map_of (subscriptions (client (state_of (Unsubscribe parses T w)))) T = None
       \<and> \<not> HasSubscription (client (state_of (Unsubscribe parses T w))) T
       \<and> sent (state_of (Unsubscribe parses T w)) =
           (if running (client w) \<and> parses (hub s)
            then sent w @ [unsubscribeRequest (client (state_of (Unsubscribe parses T w))) s]
            else sent w)
       \<and> (returns (Unsubscribe parses T w) \<longleftrightarrow> (running (client w) \<longrightarrow> parses (hub s)))
       \<and> (\<forall>clock req b.
             body req = Some b \<and> Values_Get (query req) ''hub.mode'' = ''unsubscribe''
               \<and> Values_Get (query req) ''hub.topic'' = T
             \<longrightarrow> handleCallback clock req (state_of (Unsubscribe parses T w)) =
                   (\<lparr>resp_status = Some 200, resp_body = Values_Get (query req) ''hub.challenge''\<rparr>,
                    state_of (Unsubscribe parses T w)))
       \<and> (\<forall>clock req b.
             body req = Some b \<and> Values_Get (query req) ''hub.mode'' = ''unsubscribe''
               \<and> Values_Get (query req) ''hub.topic'' = T
             \<longrightarrow> handleCallback clock req w =
                   (\<lparr>resp_status = Some 400, resp_body = ''Unexpected unsubscribe'' @ [CHR 0x0A]\<rparr>, w))"
proof -
  have gone: "map_of (subscriptions (client (state_of (Unsubscribe parses T w)))) T = None"
    by (simp add: Unsubscribe_lookup)
  have req: "sent (state_of (Unsubscribe parses T w)) =
           (if running (client w) \<and> parses (hub s)
            then sent w @ [unsubscribeRequest (client (state_of (Unsubscribe parses T w))) s]
            else sent w)"
    by (simp add: Unsubscribe_eq [OF assms] set_subscriptions_def)
  have ret: "returns (Unsubscribe parses T w) \<longleftrightarrow> (running (client w) \<longrightarrow> parses (hub s))"
    by (simp add: Unsubscribe_eq [OF assms])
  show ?thesis
    using assms gone req ret
    by (simp add: HasSubscription_def handleCallback_def handleUnsubscribe_def StatusBadRequest_def)
qed

section \<open>Deduplication of update notifications\<close>

lemma two_topics_eq:
  "two_topics =
     \<lparr>client = \<lparr>self = ''http://sub.example'', from_hdr = ''app (gohubbub)'', running = False,
                 subscriptions = [(''http://t/a'', topic_a), (''http://t/b'', topic_b)],
                 history = replicate 50 None\<rparr>,
      subscriptionIdCounter = 2, sent = [], invoked = []\<rparr>"
  by (simp add: two_topics_def new_world_def Subscribe_def Let_def NewClient_def ring_New_def
      set_subscriptions_def topic_a_def topic_b_def)

lemma is_unique_iff: "is_unique h r \<longleftrightarrow> Some h \<notin> set r"
proof -
  have "fold (\<lambda>v unique. if v = Some h then False else unique) r u \<longleftrightarrow> u \<and> Some h \<notin> set r" for u
    by (induction r arbitrary: u) auto
  then show ?thesis
    by (simp add: is_unique_def ring_Do_def)
qed

lemma message_hash_eq: "message_hash b = b @ md5 []"
  by (simp add: message_hash_def hash_Sum_def md5_New_def)

lemma message_hash_inj [simp]: "message_hash b = message_hash b' \<longleftrightarrow> b = b'"
  by (simp add: message_hash_eq)

lemma broadcast_fresh:
  assumes "Some (message_hash b) \<notin> set (history (client w))" and "history (client w) \<noteq> []"
  shows "broadcast s ct b w =
     w\<lparr>client := (client w)\<lparr>history := tl (history (client w)) @ [Some (message_hash b)]\<rparr>,
       invoked := invoked w @ [(handler s, ct, b)]\<rparr>"
  using assms
  by (cases "history (client w)")
     (simp_all add: broadcast_def is_unique_iff ring_Next_def ring_set_Value_def)

lemma broadcast_seen:
  "Some (message_hash b) \<in> set (history (client w)) \<Longrightarrow> broadcast s ct b w = w"
  by (simp add: broadcast_def is_unique_iff)

lemma handleCallback_update:
  assumes "is_update w req s"
  shows "handleCallback clock req w =
     (\<lparr>resp_status = Some 200, resp_body = []\<rparr>,
      broadcast s (Header_Get (headers req) ''Content-Type'') (body_of req) w)"
proof -
  obtain b where b: "body req = Some b"
    using assms by (auto simp: is_update_def split: option.splits)
  with assms show ?thesis
    by (auto simp: is_update_def handleCallback_def handleUpdate_def passes_signature_def
        body_of_def Let_def split: option.splits if_splits)
qed


lemma broadcast_subscriptions [simp]:
  "subscriptions (client (broadcast s ct b w)) = subscriptions (client w)"
  by (simp add: broadcast_def)

lemma is_update_cong:
  assumes "subscriptions (client w') = subscriptions (client w)"
  shows "is_update w' r s = is_update w r s"
proof -
  have "subscriptionForPath (client w') = subscriptionForPath (client w)"
    unfolding subscriptionForPath_def assms ..
  then show ?thesis
    unfolding is_update_def by (simp only:)
qed

lemma deliver_append: "deliver clock (rs @ rs') w = deliver clock rs' (deliver clock rs w)"
  by (induction rs arbitrary: w) simp_all

lemma deliver_fresh:
  assumes "\<forall>r \<in> set rs. is_update w r s"
    and "\<forall>r \<in> set rs. Some (message_hash (body_of r)) \<notin> set (history (client w))"
    and "distinct (map body_of rs)"
    and "history (client w) \<noteq> []"
  shows "history (client (deliver clock rs w)) =
           drop (length rs) (history (client w) @ map (\<lambda>r. Some (message_hash (body_of r))) rs)
       \<and> invoked (deliver clock rs w) = invoked w @ map (call_of s) rs
       \<and> subscriptions (client (deliver clock rs w)) = subscriptions (client w)"
  using assms
proof (induction rs arbitrary: w)
  case Nil
  then show ?case by simp
next
  case (Cons r rs)
  let ?H = "history (client w)"
  let ?h = "Some (message_hash (body_of r))"
  let ?w1 = "snd (handleCallback clock r w)"
  have upd: "is_update w r s"
    using Cons.prems(1) by simp
  have fresh: "?h \<notin> set ?H"
    using Cons.prems(2) by simp
  have w1: "?w1 = w\<lparr>client := (client w)\<lparr>history := tl ?H @ [?h]\<rparr>,
                   invoked := invoked w @ [call_of s r]\<rparr>"
    using broadcast_fresh [OF fresh Cons.prems(4)]
    by (simp add: handleCallback_update [OF upd] call_of_def)
  have subs: "subscriptions (client ?w1) = subscriptions (client w)"
    by (simp add: w1)
  have H1: "history (client ?w1) = tl ?H @ [?h]"
    by (simp add: w1)
  have a: "\<forall>r' \<in> set rs. is_update ?w1 r' s"
    using Cons.prems(1) by (simp add: is_update_cong [OF subs])
  have b: "\<forall>r' \<in> set rs. Some (message_hash (body_of r')) \<notin> set (history (client ?w1))"
  proof
    fix r' assume r': "r' \<in> set rs"
    then have "Some (message_hash (body_of r')) \<notin> set ?H"
      using Cons.prems(2) by simp
    then have "Some (message_hash (body_of r')) \<notin> set (tl ?H)"
      using Cons.prems(4) by (cases ?H) auto
    moreover have "body_of r \<notin> body_of ` set rs"
      using Cons.prems(3) by simp
    then have "body_of r' \<noteq> body_of r"
      using r' by (metis imageI)
    ultimately show "Some (message_hash (body_of r')) \<notin> set (history (client ?w1))"
      by (simp add: H1)
  qed
  have c: "distinct (map body_of rs)"
    using Cons.prems(3) by simp
  have d: "history (client ?w1) \<noteq> []"
    by (simp add: H1)
  have split: "?H = hd ?H # tl ?H"
    using Cons.prems(4) by simp
  have "drop (length (r # rs)) (?H @ map (\<lambda>r. Some (message_hash (body_of r))) (r # rs))
      = drop (length rs) ((tl ?H @ [?h]) @ map (\<lambda>r. Some (message_hash (body_of r))) rs)"
    by (subst split) simp
  with Cons.IH [OF a b c d] show ?case
    by (simp add: H1 subs w1)
qed

lemma bodies_distinct:
  assumes "\<forall>r \<in> set rs. is_update w r s" and "distinct (map body rs)"
  shows "distinct (map body_of rs)"
proof -
  have "map body rs = map Some (map body_of rs)"
    using assms(1) by (induction rs) (auto simp: is_update_def body_of_def split: option.splits)
  with assms(2) have "distinct (map Some (map body_of rs))"
    by (simp only:)
  then have "distinct (map body_of rs) \<and> inj_on Some (set (map body_of rs))"
    by (simp only: distinct_map)
  then show ?thesis
    by (rule conjunct1)
qed

text \<open>
  Claim C3. Take a client whose ring has its 50 places, update notifications for a
  subscription \<open>s\<close> with pairwise distinct bodies, and let none of the bodies have its
  entry in the ring yet. Then delivering the first one twice calls the handler once. With
  fewer than 50 others delivered in between, delivering the first one again does not call
  the handler. With 50 others in between (51 bodies in all), the entry of the first body is
  no longer in the ring, and delivering it again calls the handler again.
\<close>
theorem dedup_and_eviction:
  assumes "length (history (client w)) = 50"
    and "\<forall>r \<in> set (req # reqs). is_update w r s"
    and "\<forall>r \<in> set (req # reqs). Some (message_hash (body_of r)) \<notin> set (history (client w))"
    and "distinct (map body (req # reqs))"
  shows "invoked (deliver clock [req, req] w) = invoked w @ [call_of s req]
       \<and> (length reqs < 50 \<longrightarrow>
            invoked (deliver clock ((req # reqs) @ [req]) w)
              = invoked w @ map (call_of s) (req # reqs))
       \<and> (length reqs = 50 \<longrightarrow>
            Some (message_hash (body_of req))
              \<notin> set (history (client (deliver clock (req # reqs) w)))
            \<and> invoked (deliver clock ((req # reqs) @ [req]) w)
              = invoked w @ map (call_of s) (req # reqs) @ [call_of s req])"
proof -
  let ?H = "history (client w)"
  let ?hs = "map (\<lambda>r. Some (message_hash (body_of r))) (req # reqs)"
  let ?w' = "deliver clock (req # reqs) w"
  have ne: "?H \<noteq> []"
    using assms(1) by auto
  have dist: "distinct (map body_of (req # reqs))"
    using bodies_distinct [OF assms(2) assms(4)] .
  note all = deliver_fresh [OF assms(2) assms(3) dist ne, of clock]
  have subs': "subscriptions (client ?w') = subscriptions (client w)"
    using all by simp
  have upd': "is_update ?w' req s"
    unfolding is_update_cong [OF subs'] using assms(2) by simp
  have "deliver clock ((req # reqs) @ [req]) w = deliver clock [req] ?w'"
    by (rule deliver_append)
  also have "\<dots> = snd (handleCallback clock req ?w')"
    by simp
  also have "\<dots> = broadcast s (Header_Get (headers req) ''Content-Type'') (body_of req) ?w'"
    by (simp only: handleCallback_update [OF upd'] snd_conv)
  finally have again: "deliver clock ((req # reqs) @ [req]) w
      = broadcast s (Header_Get (headers req) ''Content-Type'') (body_of req) ?w'" .
  have one: "invoked (deliver clock [req, req] w) = invoked w @ [call_of s req]"
  proof -
    have "\<forall>r \<in> set [req]. is_update w r s"
      and "\<forall>r \<in> set [req]. Some (message_hash (body_of r)) \<notin> set ?H"
      and "distinct (map body_of [req])"
      using assms(2,3) by simp_all
    note first = deliver_fresh [OF this ne, of clock]
    let ?w1 = "deliver clock [req] w"
    have subs1: "subscriptions (client ?w1) = subscriptions (client w)"
      using first by simp
    have "is_update ?w1 req s"
      unfolding is_update_cong [OF subs1] using assms(2) by simp
    moreover have "Some (message_hash (body_of req)) \<in> set (history (client ?w1))"
      using first ne by (cases ?H) simp_all
    ultimately have "snd (handleCallback clock req ?w1) = ?w1"
      by (simp add: handleCallback_update broadcast_seen)
    moreover have "deliver clock [req, req] w = snd (handleCallback clock req ?w1)"
      by simp
    ultimately show ?thesis
      using first by simp
  qed
  have few: "invoked (deliver clock ((req # reqs) @ [req]) w)
      = invoked w @ map (call_of s) (req # reqs)" if "length reqs < 50"
  proof -
    have "history (client ?w') = drop (length (req # reqs)) ?H @ ?hs"
      using all that assms(1) by simp
    then have "Some (message_hash (body_of req)) \<in> set (history (client ?w'))"
      by simp
    then show ?thesis
      using all by (simp only: again broadcast_seen)
  qed
  have many: "Some (message_hash (body_of req)) \<notin> set (history (client ?w'))
      \<and> invoked (deliver clock ((req # reqs) @ [req]) w)
        = invoked w @ map (call_of s) (req # reqs) @ [call_of s req]" if "length reqs = 50"
  proof -
    have H': "history (client ?w') = map (\<lambda>r. Some (message_hash (body_of r))) reqs"
      using all that assms(1) by simp
    have gone: "Some (message_hash (body_of req)) \<notin> set (history (client ?w'))"
      unfolding H' using dist by auto
    have ne': "history (client ?w') \<noteq> []"
      unfolding H' using that by auto
    have inv': "invoked ?w' = invoked w @ map (call_of s) (req # reqs)"
      using all by blast
    have "invoked (deliver clock ((req # reqs) @ [req]) w)
        = invoked (broadcast s (Header_Get (headers req) ''Content-Type'') (body_of req) ?w')"
      by (simp only: again)
    also have "\<dots> = invoked ?w' @ [call_of s req]"
      by (simp add: broadcast_fresh [OF gone ne'] call_of_def del: deliver.simps)
    also have "\<dots> = invoked w @ map (call_of s) (req # reqs) @ [call_of s req]"
      by (simp only: inv' append_assoc)
    finally show ?thesis
      using gone by blast
  qed
  show ?thesis
    using one few many by blast
qed

section \<open>Lengths of the digests\<close>

lemma length_hex: "length (hex_EncodeToString bs) = 2 * length bs"
  by (induction bs) (simp_all add: hex_EncodeToString_def hex_byte_def)

lemma length_be_bytes32 [simp]: "length (be_bytes32 w) = 4"
  by (simp add: be_bytes32_def)

lemma length_sha1_out [simp]: "length (sha1_out st) = 20"
  by (cases st) simp

lemma length_sha1 [simp]: "length (sha1 m) = 20"
  by (simp add: sha1_def)

lemma length_md5 [simp]: "length (md5 m) = 16"
proof -
  obtain a b c d where "blocks_fold 64 md5_block md5_init (md5_pad m) = (a, b, c, d)"
    by (cases "blocks_fold 64 md5_block md5_init (md5_pad m)") auto
  then show ?thesis
    by (simp add: md5_def le_bytes32_def)
qed

lemma length_message_hash: "length (message_hash b) = length b + 16"
  by (simp add: message_hash_eq)

lemma EqualFold_length: "EqualFold s t \<Longrightarrow> length s = length t"
  unfolding EqualFold_def by (rule map_eq_imp_length_eq)

lemma hmac_sha1_signature_length:
  "length (hex_EncodeToString (hash_Sum (hash_Write (hmac_New sha1_New k) m) [])) = 40"
  by (simp add: length_hex hash_Sum_def hash_Write_def hmac_New_def sha1_New_def hmac_def)

lemma short_digest_rejected:
  "length d \<noteq> 40 \<Longrightarrow>
   \<not> EqualFold d (hex_EncodeToString (hash_Sum (hash_Write (hmac_New sha1_New k) m) []))"
  using EqualFold_length hmac_sha1_signature_length by metis

section \<open>Keyed digests\<close>

subsection \<open>Evaluating SHA-1 on concrete blocks\<close>

text \<open>
  The simplifier computes with numerals of any size; the next facts cut every register
  back to 32 bits after each round, so the numerals stay small.
\<close>

lemma mask32: "(x :: u32) AND 0xFFFFFFFF = x"
proof -
  have "x AND mask 32 = x"
    by (simp flip: take_bit_eq_mask add: take_bit_word_eq_self)
  moreover have "mask 32 = (0xFFFFFFFF :: u32)"
    by (simp add: mask_eq_exp_minus_1)
  ultimately show ?thesis by simp
qed

lemma sha1_round_eval:
  "sha1_round t w (a, b, c, d, e) =
     ((rotl32 5 a + sha1_f t b c d + e + w + sha1_k t) AND 0xFFFFFFFF, a,
      rotl32 30 b AND 0xFFFFFFFF, c, d)"
  by (simp only: mask32 sha1_round.simps)

lemma sha1_schedule_eval:
  "sha1_schedule (w0 # w1 # w2 # w3 # w4 # w5 # w6 # w7 # w8 # w9 # w10 # w11 # w12 # w13 # ws) =
     rotl32 1 (w13 XOR w8 XOR w2 XOR w0) AND 0xFFFFFFFF"
  by (simp only: mask32 sha1_schedule.simps)

lemma sha1_add_eval:
  "sha1_add (h0, h1, h2, h3, h4) (a, b, c, d, e) =
     ((h0 + a) AND 0xFFFFFFFF, (h1 + b) AND 0xFFFFFFFF, (h2 + c) AND 0xFFFFFFFF,
      (h3 + d) AND 0xFFFFFFFF, (h4 + e) AND 0xFFFFFFFF)"
  by (simp only: mask32 sha1_add.simps)

lemma replicate_num: "replicate (numeral k) x = x # replicate (pred_numeral k) x"
  by (simp add: numeral_eq_Suc)

lemma of_char_char_of_word: "(of_char (char_of (n::nat)) :: 'a::len word) = of_nat (n mod 256)"
proof -
  have "(of_char (char_of n) :: 'a word) = of_nat (of_char (char_of n))"
    by (simp only: of_nat_of_char)
  then show ?thesis
    by (simp only: of_char_of)
qed

lemmas sha1_eval = of_char_char_of_word
  sha1_block_def sha1_init_def xor_byte_def be_word_def sha1_rounds.simps sha1_round_eval
  sha1_schedule_eval sha1_add_eval rotl32_def sha1_f_def sha1_k_def replicate_num
  be_bytes32_def be_bytes64_def byte_at_def

lemma blocks_fold_step:
  "length X = n \<Longrightarrow> 0 < n \<Longrightarrow> blocks_fold n f s (X @ r) = blocks_fold n f (f s X) r"
  by (subst blocks_fold.simps) simp

lemma blocks_fold_Nil: "0 < n \<Longrightarrow> blocks_fold n f s [] = s"
  by (subst blocks_fold.simps) simp

lemma length_be_bytes64 [simp]: "length (be_bytes64 w) = 8"
  by (simp add: be_bytes64_def)

text \<open>SHA-1 of a block followed by at most 55 bytes takes two rounds of compression.\<close>

lemma sha1_two_blocks:
  assumes "length X = 64" and "length m + k = 55" and "L = 64 + length m"
  shows "sha1 (X @ m) =
     sha1_out (sha1_block (sha1_block sha1_init X)
       (m @ CHR 0x80 # replicate k (CHR 0x00) @ be_bytes64 (word_of_nat L * 8)))"
proof -
  have a: "length (X @ m) mod 64 = length m"
    using assms by simp
  have b: "(119 - length m) mod 64 = k"
  proof -
    have "119 - length m = 64 + k" and "k < 64"
      using assms(2) by linarith+
    then show ?thesis by simp
  qed
  have k: "(119 - length (X @ m) mod 64) mod 64 = k"
    by (simp only: a b)
  let ?r = "m @ CHR 0x80 # replicate k (CHR 0x00) @ be_bytes64 (word_of_nat L * 8)"
  have z: "pad_zeros64 (X @ m) = replicate k (CHR 0x00)"
    by (simp only: pad_zeros64_def k)
  have l: "bit_length (X @ m) = word_of_nat L * 8"
    using assms by (simp add: bit_length_def)
  have pad: "sha_pad64 (X @ m) = X @ ?r @ []"
    by (simp add: sha_pad64_def z l)
  have len: "length ?r = 64"
    using assms by simp
  show ?thesis
    unfolding sha1_def pad
    by (simp only: blocks_fold_step [OF assms(1)] blocks_fold_step [OF len] blocks_fold_Nil zero_less_numeral)
qed

text \<open>
  HMAC-SHA1 of a short key and a short message, from the four compressions it takes: of the
  two padded keys, of the message, and of the inner digest.
\<close>

lemma hmac_sha1_eval:
  assumes key: "length key + k = 64"
    and msg: "length m + j = 55" "L = 64 + length m"
    and ipad: "sha1_block sha1_init (map (xor_byte 0x36) (key @ replicate k (CHR 0x00))) = si"
    and opad: "sha1_block sha1_init (map (xor_byte 0x5C) (key @ replicate k (CHR 0x00))) = so"
    and inner: "sha1_block si
        (m @ CHR 0x80 # replicate j (CHR 0x00) @ be_bytes64 (word_of_nat L * 8)) = r"
    and outer: "sha1_block so
        (sha1_out r @ CHR 0x80 # replicate 35 (CHR 0x00) @ be_bytes64 (word_of_nat 84 * 8)) = q"
  shows "hmac sha1 64 key m = sha1_out q"
proof -
  let ?ip = "map (xor_byte 0x36) (key @ replicate k (CHR 0x00))"
  let ?op = "map (xor_byte 0x5C) (key @ replicate k (CHR 0x00))"
  have k: "k = 64 - length key" and short: "\<not> 64 < length key"
    using key by simp_all
  have lip: "length ?ip = 64" and lop: "length ?op = 64"
    using key by simp_all
  have "sha1 (?ip @ m) = sha1_out (sha1_block (sha1_block sha1_init ?ip)
        (m @ CHR 0x80 # replicate j (CHR 0x00) @ be_bytes64 (word_of_nat L * 8)))"
    using lip msg by (rule sha1_two_blocks)
  then have i: "sha1 (?ip @ m) = sha1_out r"
    by (simp only: ipad inner)
  have "sha1 (?op @ sha1_out r) = sha1_out (sha1_block (sha1_block sha1_init ?op)
        (sha1_out r @ CHR 0x80 # replicate 35 (CHR 0x00) @ be_bytes64 (word_of_nat 84 * 8)))"
    using lop by (rule sha1_two_blocks) simp_all
  then have o: "sha1 (?op @ sha1_out r) = sha1_out q"
    by (simp only: opad outer)
  have "hmac sha1 64 key m = sha1 (?op @ sha1 (?ip @ m))"
    unfolding hmac_def hmac_key_def k by (simp only: short if_False)
  then show ?thesis
    by (simp only: i o)
qed

lemma ipad_s3cr3t:
  "sha1_block sha1_init (map (xor_byte 0x36) (''s3cr3t'' @ replicate 58 (CHR 0x00)))
     = (0xFC6CE11C, 0xCCE0C679, 0x646F2FFF, 0x3D7746FA, 0x28F259A5)"
  by (simp add: sha1_eval del: sha1_round.simps sha1_schedule.simps sha1_add.simps)

lemma opad_s3cr3t:
  "sha1_block sha1_init (map (xor_byte 0x5C) (''s3cr3t'' @ replicate 58 (CHR 0x00)))
     = (0x14ABED96, 0x0CB6ACA0, 0x28A4E69E, 0x23BDF256, 0x92CE46A7)"
  by (simp add: sha1_eval del: sha1_round.simps sha1_schedule.simps sha1_add.simps)

lemma inner_topic_a:
  "sha1_block (0xFC6CE11C, 0xCCE0C679, 0x646F2FFF, 0x3D7746FA, 0x28F259A5)
     (''http://t/a'' @ CHR 0x80 # replicate 45 (CHR 0x00) @ be_bytes64 (word_of_nat 74 * 8))
     = (0x7A26E7C0, 0x92583460, 0x5F949F50, 0x58E47BE6, 0xF261E908)"
  by (simp add: sha1_eval del: sha1_round.simps sha1_schedule.simps sha1_add.simps)

lemma outer_topic_a:
  "sha1_block (0x14ABED96, 0x0CB6ACA0, 0x28A4E69E, 0x23BDF256, 0x92CE46A7)
     (sha1_out (0x7A26E7C0, 0x92583460, 0x5F949F50, 0x58E47BE6, 0xF261E908)
        @ CHR 0x80 # replicate 35 (CHR 0x00) @ be_bytes64 (word_of_nat 84 * 8))
     = (0xFD404BF6, 0x987690DC, 0xE216AAD8, 0xFF1D4555, 0xC7BB484A)"
  by (simp add: sha1_eval del: sha1_round.simps sha1_schedule.simps sha1_add.simps)

lemma inner_topic_b:
  "sha1_block (0xFC6CE11C, 0xCCE0C679, 0x646F2FFF, 0x3D7746FA, 0x28F259A5)
     (''http://t/b'' @ CHR 0x80 # replicate 45 (CHR 0x00) @ be_bytes64 (word_of_nat 74 * 8))
     = (0xB5403CB3, 0x5CCE3718, 0x6348502C, 0x6476DF90, 0x36A855A5)"
  by (simp add: sha1_eval del: sha1_round.simps sha1_schedule.simps sha1_add.simps)

lemma outer_topic_b:
  "sha1_block (0x14ABED96, 0x0CB6ACA0, 0x28A4E69E, 0x23BDF256, 0x92CE46A7)
     (sha1_out (0xB5403CB3, 0x5CCE3718, 0x6348502C, 0x6476DF90, 0x36A855A5)
        @ CHR 0x80 # replicate 35 (CHR 0x00) @ be_bytes64 (word_of_nat 84 * 8))
     = (0x6ECA940E, 0x1F7CC80C, 0x4E5AF185, 0xACFC0818, 0xF51BB14F)"
  by (simp add: sha1_eval del: sha1_round.simps sha1_schedule.simps sha1_add.simps)

lemma ipad_key_a:
  "sha1_block sha1_init
     (map (xor_byte 0x36) (''fd404bf6987690dce216aad8ff1d4555c7bb484a'' @ replicate 24 (CHR 0x00)))
     = (0x57B80D7A, 0x9D26FE54, 0xE95DE343, 0x4E8BD272, 0xB7DD38B9)"
  by (simp add: sha1_eval del: sha1_round.simps sha1_schedule.simps sha1_add.simps)

lemma opad_key_a:
  "sha1_block sha1_init
     (map (xor_byte 0x5C) (''fd404bf6987690dce216aad8ff1d4555c7bb484a'' @ replicate 24 (CHR 0x00)))
     = (0xBDE4E899, 0xB607D6CE, 0x5B796896, 0x524C525E, 0x5508F495)"
  by (simp add: sha1_eval del: sha1_round.simps sha1_schedule.simps sha1_add.simps)

lemma inner_feed:
  "sha1_block (0x57B80D7A, 0x9D26FE54, 0xE95DE343, 0x4E8BD272, 0xB7DD38B9)
     (''<feed/>'' @ CHR 0x80 # replicate 48 (CHR 0x00) @ be_bytes64 (word_of_nat 71 * 8))
     = (0x26F770D6, 0xE6871E67, 0x1DA04F9B, 0x9993F298, 0x68CF5FA2)"
  by (simp add: sha1_eval del: sha1_round.simps sha1_schedule.simps sha1_add.simps)

lemma outer_feed:
  "sha1_block (0xBDE4E899, 0xB607D6CE, 0x5B796896, 0x524C525E, 0x5508F495)
     (sha1_out (0x26F770D6, 0xE6871E67, 0x1DA04F9B, 0x9993F298, 0x68CF5FA2)
        @ CHR 0x80 # replicate 35 (CHR 0x00) @ be_bytes64 (word_of_nat 84 * 8))
     = (0x3840E3F9, 0x57EEC48F, 0xAF4F6BBA, 0x575D28FC, 0xE7F9B339)"
  by (simp add: sha1_eval del: sha1_round.simps sha1_schedule.simps sha1_add.simps)

subsection \<open>The derived key\<close>

lemma SecretKey_hmac:
  "SecretKey s = hex_EncodeToString (hmac sha1 64 (secret s) (topic s))"
  by (simp add: SecretKey_def hash_Sum_def hash_Write_def hmac_New_def sha1_New_def)

lemmas hex_eval =
  hex_EncodeToString_def hex_byte_def hextable_def be_bytes32_def byte_at_def of_char_of

lemma key_a:
  assumes "secret s = ''s3cr3t''" and "topic s = ''http://t/a''"
  shows "SecretKey s = ''fd404bf6987690dce216aad8ff1d4555c7bb484a''"
proof -
  have "hmac sha1 64 ''s3cr3t'' ''http://t/a''
      = sha1_out (0xFD404BF6, 0x987690DC, 0xE216AAD8, 0xFF1D4555, 0xC7BB484A)"
    by (rule hmac_sha1_eval [OF _ _ _ ipad_s3cr3t opad_s3cr3t inner_topic_a outer_topic_a])
      simp_all
  then show ?thesis
    by (simp add: SecretKey_hmac assms hex_eval)
qed

lemma key_b:
  assumes "secret s = ''s3cr3t''" and "topic s = ''http://t/b''"
  shows "SecretKey s = ''6eca940e1f7cc80c4e5af185acfc0818f51bb14f''"
proof -
  have "hmac sha1 64 ''s3cr3t'' ''http://t/b''
      = sha1_out (0x6ECA940E, 0x1F7CC80C, 0x4E5AF185, 0xACFC0818, 0xF51BB14F)"
    by (rule hmac_sha1_eval [OF _ _ _ ipad_s3cr3t opad_s3cr3t inner_topic_b outer_topic_b])
      simp_all
  then show ?thesis
    by (simp add: SecretKey_hmac assms hex_eval)
qed

lemma hex_byte_inj:
  assumes "hex_byte c = hex_byte d"
  shows "c = d"
proof -
  let ?n = "of_char c :: nat" and ?m = "of_char d :: nat"
  have d: "distinct hextable" and l: "length hextable = 16"
    by (simp_all add: hextable_def)
  have "?n < 16 * 16" and "?m < 16 * 16"
    using nat_of_char_less_256 [of c] nat_of_char_less_256 [of d] by simp_all
  then have n: "?n div 16 < 16" and m: "?m div 16 < 16"
    by (simp_all only: less_mult_imp_div_less)
  have n': "?n mod 16 < 16" and m': "?m mod 16 < 16"
    by simp_all
  from assms have "hextable ! (?n div 16) = hextable ! (?m div 16)"
    and "hextable ! (?n mod 16) = hextable ! (?m mod 16)"
    by (simp_all add: hex_byte_def)
  then have "?n div 16 = ?m div 16" and "?n mod 16 = ?m mod 16"
    using nth_eq_iff_index_eq [OF d] n m n' m' l by simp_all
  then have "?n = ?m"
    by (metis div_mult_mod_eq)
  then show ?thesis
    by simp
qed

lemma hex_EncodeToString_inj:
  "hex_EncodeToString a = hex_EncodeToString b \<Longrightarrow> a = b"
proof (induction a arbitrary: b)
  case Nil
  then show ?case
    by (cases b) (simp_all add: hex_EncodeToString_def hex_byte_def)
next
  case (Cons c cs)
  then obtain d ds where b: "b = d # ds"
    by (cases b) (simp_all add: hex_EncodeToString_def hex_byte_def)
  from Cons.prems have "hex_byte c @ hex_EncodeToString cs = hex_byte d @ hex_EncodeToString ds"
    by (simp add: b hex_EncodeToString_def)
  moreover have "length (hex_byte c) = length (hex_byte d)"
    by (simp add: hex_byte_def)
  ultimately have "hex_byte c = hex_byte d" and "hex_EncodeToString cs = hex_EncodeToString ds"
    by simp_all
  then show ?case
    using Cons.IH hex_byte_inj b by simp
qed

text \<open>
  Claim C7. The derived key is the hexadecimal form of \<open>HMAC-SHA1\<close> with the secret as
  key and the topic as message. It is a function of the two: equal secrets and topics give
  equal keys, and two keys are equal exactly when the two MACs are. For the secret
  \<open>s3cr3t\<close> the keys of the topics \<open>http://t/a\<close> and \<open>http://t/b\<close> are the two
  strings below, which differ.
\<close>
theorem derived_key:
  "SecretKey s = hex_EncodeToString (hmac sha1 64 (secret s) (topic s))
   \<and> (SecretKey s = SecretKey s'
        \<longleftrightarrow> hmac sha1 64 (secret s) (topic s) = hmac sha1 64 (secret s') (topic s'))
   \<and> SecretKey (s\<lparr>secret := ''s3cr3t'', topic := ''http://t/a''\<rparr>)
        = ''fd404bf6987690dce216aad8ff1d4555c7bb484a''
   \<and> SecretKey (s\<lparr>secret := ''s3cr3t'', topic := ''http://t/b''\<rparr>)
        = ''6eca940e1f7cc80c4e5af185acfc0818f51bb14f''
   \<and> SecretKey (s\<lparr>secret := ''s3cr3t'', topic := ''http://t/a''\<rparr>)
        \<noteq> SecretKey (s\<lparr>secret := ''s3cr3t'', topic := ''http://t/b''\<rparr>)"
proof -
  let ?a = "s\<lparr>secret := ''s3cr3t'', topic := ''http://t/a''\<rparr>"
  let ?b = "s\<lparr>secret := ''s3cr3t'', topic := ''http://t/b''\<rparr>"
  have eq: "SecretKey s = SecretKey s'
      \<longleftrightarrow> hmac sha1 64 (secret s) (topic s) = hmac sha1 64 (secret s') (topic s')"
    using hex_EncodeToString_inj by (auto simp: SecretKey_hmac)
  have a: "SecretKey ?a = ''fd404bf6987690dce216aad8ff1d4555c7bb484a''"
    by (rule key_a) simp_all
  have b: "SecretKey ?b = ''6eca940e1f7cc80c4e5af185acfc0818f51bb14f''"
    by (rule key_b) simp_all
  have "SecretKey ?a \<noteq> SecretKey ?b"
    by (simp only: a b) simp
  then show ?thesis
    using SecretKey_hmac eq a b by blast
qed

subsection \<open>A signed notification\<close>

lemma topic_a_fields: "secret topic_a = ''s3cr3t''" "topic topic_a = ''http://t/a''"
  by (simp_all add: topic_a_def)

lemma signature_feed:
  "hex_EncodeToString
     (hash_Sum (hash_Write (hmac_New sha1_New (SecretKey topic_a)) ''<feed/>'') [])
     = ''3840e3f957eec48faf4f6bba575d28fce7f9b339''"
proof -
  have "hmac sha1 64 ''fd404bf6987690dce216aad8ff1d4555c7bb484a'' ''<feed/>''
      = sha1_out (0x3840E3F9, 0x57EEC48F, 0xAF4F6BBA, 0x575D28FC, 0xE7F9B339)"
    by (rule hmac_sha1_eval [OF _ _ _ ipad_key_a opad_key_a inner_feed outer_feed]) simp_all
  then show ?thesis
    by (simp add: key_a [OF topic_a_fields] hash_Sum_def hash_Write_def hmac_New_def
        sha1_New_def hex_eval)
qed

section \<open>Signatures and cache entries\<close>

lemma Atoi_0: "Atoi ''0'' = Inr 0"
  by (simp add: Atoi_def unsigned_part_def signed_value_def decimal_def is_digit_def)

lemma Atoi_1: "Atoi ''1'' = Inr 1"
  by (simp add: Atoi_def unsigned_part_def signed_value_def decimal_def is_digit_def)

lemma path_0: "subscriptionForPath (client two_topics) ''/push-callback/0'' = Some topic_a"
  by (simp add: subscriptionForPath_def two_topics_eq Atoi_0 topic_a_def)

lemma path_1: "subscriptionForPath (client two_topics) ''/push-callback/1'' = Some topic_b"
  by (simp add: subscriptionForPath_def two_topics_eq Atoi_1 topic_a_def topic_b_def)


lemma canonical_signature_key: "CanonicalHeaderKey ''x-hub-signature'' = ''X-Hub-Signature''"
  by (simp add: CanonicalHeaderKey_def ascii_upper_def ascii_lower_def char_of_def bit_0)

lemma history_two_topics: "history (client two_topics) = None # replicate 49 None"
proof -
  have "replicate (Suc 49) None = None # replicate 49 (None :: bytes option)"
    by (rule replicate_Suc)
  moreover have "Suc 49 = 50"
    by simp
  ultimately have "replicate 50 None = None # replicate 49 (None :: bytes option)"
    by (simp only:)
  then show ?thesis
    by (simp only: two_topics_eq Client.simps world.simps)
qed

lemma topic_b_secret: "secret topic_b = []"
  by (simp add: topic_b_def)

lemmas header_eval =
  Header_Get_def canonical_signature_key canonical_content_type Values_Get_def

lemma topic_a_secret: "secret topic_a = ''s3cr3t''"
  by (simp add: topic_a_def)

text \<open>
  An update notification whose signature does not pass: whatever the reason, the status of
  the response is 200 and nothing changes, so the handler is not called.
\<close>

lemma rejected_update:
  assumes "body req = Some b"
    and "Values_Get (query req) ''hub.mode'' \<notin> {''subscribe'', ''unsubscribe'', ''denied''}"
    and "subscriptionForPath (client w) (path req) = Some s"
    and "\<not> passes_signature s req b"
  shows "resp_status (fst (handleCallback clock req w)) = Some 200"
    and "snd (handleCallback clock req w) = w"
  using assms
  by (auto simp: handleCallback_def handleUpdate_def passes_signature_def Let_def
      StatusBadRequest_def split: option.splits if_splits)

text \<open>
  A notification for \<open>http://t/a\<close> with the MAC of its body under the derived key, in
  upper case: the handler is called and the entry of the body is put into the ring.
\<close>

lemma signed_update_dispatched:
  "handleCallback 0
     (callback ''/push-callback/0'' []
        [(''X-Hub-Signature'', ''sha1=3840E3F957EEC48FAF4F6BBA575D28FCE7F9B339'')] ''<feed/>'')
     two_topics
   = (\<lparr>resp_status = Some 200, resp_body = []\<rparr>,
      two_topics\<lparr>client := (client two_topics)\<lparr>history :=
                    replicate 49 None @ [Some (''<feed/>'' @ md5 [])]\<rparr>,
                 invoked := [(Handler 1, [], ''<feed/>'')]\<rparr>)"
proof -
  have inv: "invoked two_topics = []"
    by (simp add: two_topics_eq)
  have h: "handler topic_a = Handler 1"
    by (simp add: topic_a_def)
  have fold: "EqualFold ''3840E3F957EEC48FAF4F6BBA575D28FCE7F9B339''
      ''3840e3f957eec48faf4f6bba575d28fce7f9b339''"
    by (simp add: EqualFold_def ascii_lower_def char_of_def bit_0)
  show ?thesis
    by (simp add: handleCallback_def callback_def path_0 handleUpdate_def header_eval Let_def
        topic_a_secret recognize_def signature_feed fold broadcast_def is_unique_iff
        message_hash_eq history_two_topics ring_Next_def ring_set_Value_def inv h)
qed

text \<open>
  Claim C2 fails on the code. The subscription for \<open>http://t/a\<close> has a secret, the
  header names the recognized algorithm \<open>sha1\<close>, and its digest differs in the last
  character from the MAC of the body under the derived key. The handler is not called and
  the body of the response is \<open>Invalid Signature\<close> with a line feed, but the status is
  200: the empty \<open>Write\<close> before the check has sent the header, and the
  \<open>WriteHeader(400)\<close> of \<open>http.Error\<close> comes too late.
\<close>
theorem bad_signature_answered_200:
  "recognize ''sha1'' = Some sha1_New
   \<and> hex_EncodeToString
       (hash_Sum (hash_Write (hmac_New sha1_New (SecretKey topic_a)) ''<feed/>'') [])
     = ''3840e3f957eec48faf4f6bba575d28fce7f9b339''
   \<and> handleCallback 0
        (callback ''/push-callback/0'' []
           [(''X-Hub-Signature'', ''sha1=3840e3f957eec48faf4f6bba575d28fce7f9b338'')] ''<feed/>'')
        two_topics
      = (\<lparr>resp_status = Some 200, resp_body = ''Invalid Signature'' @ [CHR 0x0A]\<rparr>, two_topics)"
proof -
  have fold: "\<not> EqualFold ''3840e3f957eec48faf4f6bba575d28fce7f9b338''
      ''3840e3f957eec48faf4f6bba575d28fce7f9b339''"
    by (simp add: EqualFold_def ascii_lower_def)
  show ?thesis
    by (simp add: handleCallback_def callback_def path_0 handleUpdate_def header_eval Let_def
        topic_a_secret recognize_def signature_feed fold StatusBadRequest_def)
qed

text \<open>
  Claim C6 fails on the code in the same way. Without a signature header, or with one of
  three parts, the response is \<open>Invalid Subscription\<close>; with the algorithm \<open>md5\<close> it is
  \<open>Invalid Signature\<close>; the handler is not called; but the status is 200 each time.
\<close>
theorem malformed_signature_answered_200:
  "handleCallback 0 (callback ''/push-callback/0'' [] [] ''<feed/>'') two_topics
     = (\<lparr>resp_status = Some 200, resp_body = ''Invalid Subscription'' @ [CHR 0x0A]\<rparr>, two_topics)
   \<and> handleCallback 0
        (callback ''/push-callback/0'' [] [(''X-Hub-Signature'', ''sha1=00=00'')] ''<feed/>'')
        two_topics
     = (\<lparr>resp_status = Some 200, resp_body = ''Invalid Subscription'' @ [CHR 0x0A]\<rparr>, two_topics)
   \<and> handleCallback 0
        (callback ''/push-callback/0'' [] [(''X-Hub-Signature'', ''md5=00'')] ''<feed/>'')
        two_topics
     = (\<lparr>resp_status = Some 200, resp_body = ''Invalid Signature'' @ [CHR 0x0A]\<rparr>, two_topics)"
  by (simp add: handleCallback_def callback_def path_0 handleUpdate_def header_eval Let_def
      topic_a_secret recognize_def StatusBadRequest_def)

text \<open>
  Claim C9 fails on the code. The entry put into the ring for a body is the body itself
  followed by the 16 bytes of the MD5 sum of the empty input: 17 bytes for a body of one
  byte, 19 for a body of three.
\<close>
theorem cache_entry_grows_with_body:
  "history (client (snd (handleCallback 0 (callback ''/push-callback/1'' [] [] ''a'') two_topics)))
     = replicate 49 None @ [Some (''a'' @ md5 [])]
   \<and> length (''a'' @ md5 []) = 17
   \<and> history (client (snd (handleCallback 0 (callback ''/push-callback/1'' [] [] ''abc'') two_topics)))
     = replicate 49 None @ [Some (''abc'' @ md5 [])]
   \<and> length (''abc'' @ md5 []) = 19"
  by (simp add: handleCallback_def callback_def path_1 handleUpdate_def header_eval Let_def
      topic_b_secret broadcast_def is_unique_iff message_hash_eq history_two_topics ring_Next_def
      ring_set_Value_def)

section \<open>The theorems at a concrete client\<close>

lemma verification_fields:
  "body (verification mode T extra) = Some []"
  "Values_Get (query (verification mode T extra)) ''hub.mode'' = mode"
  "Values_Get (query (verification mode T extra)) ''hub.topic'' = T"
  "Values_Get (query (verification mode T extra)) ''hub.challenge'' = ''xyz''"
  "Values_Get (query (verification mode T [])) ''hub.lease_seconds'' = []"
  "map_of (query (verification mode T [])) ''hub.lease_seconds'' = None"
  "Values_Get (query (verification mode T [(''hub.lease_seconds'', n)])) ''hub.lease_seconds'' = n"
  by (simp_all add: verification_def callback_def Values_Get_def)

lemma lookup_two_topics:
  "map_of (subscriptions (client two_topics)) ''http://t/a'' = Some topic_a"
  "map_of (subscriptions (client two_topics)) ''http://t/b'' = Some topic_b"
  "map_of (subscriptions (client two_topics)) ''http://t/c'' = None"
  by (simp_all add: two_topics_eq)

lemmas Atoi_eval = Atoi_def unsigned_part_def signed_value_def decimal_def is_digit_def

text \<open>The theorem at a lease of 3600 seconds for the topic \<open>http://t/a\<close>.\<close>
theorem subscribe_callback_verifies_witness:
  "body (verification ''subscribe'' ''http://t/a'' [(''hub.lease_seconds'', ''3600'')]) = Some []
   \<and> Values_Get (query (verification ''subscribe'' ''http://t/a'' [(''hub.lease_seconds'', ''3600'')]))
         ''hub.mode'' = ''subscribe''
   \<and> Values_Get (query (verification ''subscribe'' ''http://t/a'' [(''hub.lease_seconds'', ''3600'')]))
         ''hub.topic'' = ''http://t/a''
   \<and> map_of (subscriptions (client two_topics)) ''http://t/a'' = Some topic_a
   \<and> Atoi (Values_Get
               (query (verification ''subscribe'' ''http://t/a'' [(''hub.lease_seconds'', ''3600'')]))
               ''hub.lease_seconds'') = Inr 3600
   \<and> fst (handleCallback 0
             (verification ''subscribe'' ''http://t/a'' [(''hub.lease_seconds'', ''3600'')]) two_topics)
       = \<lparr>resp_status = Some 200, resp_body = ''xyz''\<rparr>
   \<and> map_of (subscriptions (client (snd (handleCallback 0
             (verification ''subscribe'' ''http://t/a'' [(''hub.lease_seconds'', ''3600'')])
             two_topics)))) ''http://t/a''
       = Some (topic_a\<lparr>verifiedAt := time_Now 0, lease := time_Second * word_of_int 3600\<rparr>)
   \<and> sint (time_Second * word_of_int 3600 :: Duration) = 3600 * 1000000000"
proof -
  let ?req = "verification ''subscribe'' ''http://t/a'' [(''hub.lease_seconds'', ''3600'')]"
  have h1: "body ?req = Some []"
    and h2: "Values_Get (query ?req) ''hub.mode'' = ''subscribe''"
    and h3: "Values_Get (query ?req) ''hub.topic'' = ''http://t/a''"
    and c: "Values_Get (query ?req) ''hub.challenge'' = ''xyz''"
    by (simp_all only: verification_fields)
  have h4: "map_of (subscriptions (client two_topics)) ''http://t/a'' = Some topic_a"
    by (rule lookup_two_topics)
  have h5: "Atoi (Values_Get (query ?req) ''hub.lease_seconds'') = Inr 3600"
    by (simp add: verification_fields Atoi_eval)
  have h6: "- 9223372036 \<le> (3600 :: int)" and h7: "(3600 :: int) \<le> 9223372036"
    by simp_all
  from subscribe_callback_verifies [OF h1 h2 h3 h4 h5 h6 h7, of 0] h1 h2 h3 h4 h5 c
  show ?thesis
    by (simp only: simp_thms)
qed

text \<open>
  Claim C1 as stated, for every numeric \<open>hub.lease_seconds\<close>, fails. The parameter
  \<open>9223372037\<close> is read by \<open>Atoi\<close>, and the \<open>int64\<close> product with
  \<open>time.Second\<close> wraps around: the lease stored is negative. The parameter
  \<open>9223372036854775808\<close> is rejected by \<open>Atoi\<close> (out of range), so the lease keeps
  its previous value, here zero.
\<close>
theorem lease_of_large_seconds:
  "map_of (subscriptions (client (snd (handleCallback 0
      (verification ''subscribe'' ''http://t/a'' [(''hub.lease_seconds'', ''9223372037'')])
      two_topics)))) ''http://t/a''
     = Some (topic_a\<lparr>verifiedAt := time_Now 0, lease := time_Second * 9223372037\<rparr>)
   \<and> sint (time_Second * 9223372037 :: Duration) = - 9223372036709551616
   \<and> sint (time_Second * 9223372037 :: Duration) \<noteq> 9223372037 * 1000000000
   \<and> map_of (subscriptions (client (snd (handleCallback 0
      (verification ''subscribe'' ''http://t/a'' [(''hub.lease_seconds'', ''9223372036854775808'')])
      two_topics)))) ''http://t/a''
     = Some (topic_a\<lparr>verifiedAt := time_Now 0\<rparr>)
   \<and> lease (topic_a\<lparr>verifiedAt := time_Now 0\<rparr>) = 0"
  by (simp add: handleCallback_def handleSubscribe_def verification_fields lookup_two_topics
      Atoi_eval update_conv' time_Second_def topic_a_def)


text \<open>The theorem at a callback for \<open>http://t/a\<close> without \<open>hub.lease_seconds\<close>.\<close>
theorem subscribe_callback_bad_lease_witness:
  "body (verification ''subscribe'' ''http://t/a'' []) = Some []
   \<and> Values_Get (query (verification ''subscribe'' ''http://t/a'' [])) ''hub.mode'' = ''subscribe''
   \<and> Values_Get (query (verification ''subscribe'' ''http://t/a'' [])) ''hub.topic'' = ''http://t/a''
   \<and> map_of (subscriptions (client two_topics)) ''http://t/a'' = Some topic_a
   \<and> map_of (query (verification ''subscribe'' ''http://t/a'' [])) ''hub.lease_seconds'' = None
   \<and> fst (handleCallback 0 (verification ''subscribe'' ''http://t/a'' []) two_topics)
       = \<lparr>resp_status = Some 200, resp_body = ''xyz''\<rparr>
   \<and> map_of (subscriptions (client (snd (handleCallback 0
             (verification ''subscribe'' ''http://t/a'' []) two_topics)))) ''http://t/a''
       = Some (topic_a\<lparr>verifiedAt := time_Now 0\<rparr>)
   \<and> lease (topic_a\<lparr>verifiedAt := time_Now 0\<rparr>) = lease topic_a"
proof -
  let ?req = "verification ''subscribe'' ''http://t/a'' []"
  have h1: "body ?req = Some []"
    and h2: "Values_Get (query ?req) ''hub.mode'' = ''subscribe''"
    and h3: "Values_Get (query ?req) ''hub.topic'' = ''http://t/a''"
    and c: "Values_Get (query ?req) ''hub.challenge'' = ''xyz''"
    and n: "map_of (query ?req) ''hub.lease_seconds'' = None"
    by (simp_all only: verification_fields)
  have h4: "map_of (subscriptions (client two_topics)) ''http://t/a'' = Some topic_a"
    by (rule lookup_two_topics)
  have h5: "map_of (query ?req) ''hub.lease_seconds'' = None
      \<or> isl (Atoi (Values_Get (query ?req) ''hub.lease_seconds''))"
    using n by (rule disjI1)
  from subscribe_callback_bad_lease [OF h1 h2 h3 h4 h5, of 0] h1 h2 h3 h4 n c
  show ?thesis
    by (simp only: simp_thms)
qed

text \<open>The theorem at the topic \<open>http://t/c\<close>, to which the client never subscribed.\<close>
theorem subscribe_callback_unknown_topic_witness:
  "body (verification ''subscribe'' ''http://t/c'' []) = Some []
   \<and> Values_Get (query (verification ''subscribe'' ''http://t/c'' [])) ''hub.mode'' = ''subscribe''
   \<and> Values_Get (query (verification ''subscribe'' ''http://t/c'' [])) ''hub.topic'' = ''http://t/c''
   \<and> map_of (subscriptions (client two_topics)) ''http://t/c'' = None
   \<and> handleCallback 0 (verification ''subscribe'' ''http://t/c'' []) two_topics
       = (\<lparr>resp_status = Some 400, resp_body = ''Unexpected subscription'' @ [CHR 0x0A]\<rparr>,
          two_topics)"
proof -
  let ?req = "verification ''subscribe'' ''http://t/c'' []"
  have h1: "body ?req = Some []"
    and h2: "Values_Get (query ?req) ''hub.mode'' = ''subscribe''"
    and h3: "Values_Get (query ?req) ''hub.topic'' = ''http://t/c''"
    by (simp_all only: verification_fields)
  have h4: "map_of (subscriptions (client two_topics)) ''http://t/c'' = None"
    by (rule lookup_two_topics)
  from subscribe_callback_unknown_topic [OF h1 h2 h3 h4, of 0] h1 h2 h3 h4
  show ?thesis
    by (simp only: simp_thms)
qed

text \<open>
  Claim C8 as stated, with the body \<open>Unexpected subscription\<close>, fails: \<open>http.Error\<close>
  ends the message with a line feed.
\<close>
theorem unexpected_subscription_body:
  "resp_body (fst (handleCallback 0 (verification ''subscribe'' ''http://t/c'' []) two_topics))
     = ''Unexpected subscription'' @ [CHR 0x0A]
   \<and> resp_body (fst (handleCallback 0 (verification ''subscribe'' ''http://t/c'' []) two_topics))
     \<noteq> ''Unexpected subscription''"
  by (simp add: handleCallback_def handleSubscribe_def verification_fields lookup_two_topics
      StatusBadRequest_def)

text \<open>The theorem at the topic \<open>http://t/a\<close>.\<close>
theorem unsubscribe_removes_then_confirms_witness:
  "map_of (subscriptions (client two_topics)) ''http://t/a'' = Some topic_a
   \<and> map_of (subscriptions (client (state_of (Unsubscribe parses_example ''http://t/a'' two_topics)))) ''http://t/a'' = None
   \<and> body (verification ''unsubscribe'' ''http://t/a'' []) = Some []
   \<and> Values_Get (query (verification ''unsubscribe'' ''http://t/a'' [])) ''hub.mode'' = ''unsubscribe''
   \<and> Values_Get (query (verification ''unsubscribe'' ''http://t/a'' [])) ''hub.topic'' = ''http://t/a''
   \<and> handleCallback 0 (verification ''unsubscribe'' ''http://t/a'' [])
         (state_of (Unsubscribe parses_example ''http://t/a'' two_topics))
       = (\<lparr>resp_status = Some 200, resp_body = ''xyz''\<rparr>, state_of (Unsubscribe parses_example ''http://t/a'' two_topics))
   \<and> handleCallback 0 (verification ''unsubscribe'' ''http://t/a'' []) two_topics
       = (\<lparr>resp_status = Some 400, resp_body = ''Unexpected unsubscribe'' @ [CHR 0x0A]\<rparr>,
          two_topics)"
proof -
  let ?req = "verification ''unsubscribe'' ''http://t/a'' []"
  have h1: "body ?req = Some []"
    and h2: "Values_Get (query ?req) ''hub.mode'' = ''unsubscribe''"
    and h3: "Values_Get (query ?req) ''hub.topic'' = ''http://t/a''"
    and c: "Values_Get (query ?req) ''hub.challenge'' = ''xyz''"
    by (simp_all only: verification_fields)
  have h4: "map_of (subscriptions (client two_topics)) ''http://t/a'' = Some topic_a"
    by (rule lookup_two_topics)
  note t = unsubscribe_removes_then_confirms [OF h4, of parses_example]
  have gone: "map_of (subscriptions (client (state_of (Unsubscribe parses_example ''http://t/a'' two_topics)))) ''http://t/a'' = None"
    using t by (rule conjunct1)
  have "handleCallback 0 ?req (state_of (Unsubscribe parses_example ''http://t/a'' two_topics))
       = (\<lparr>resp_status = Some 200, resp_body = Values_Get (query ?req) ''hub.challenge''\<rparr>,
          state_of (Unsubscribe parses_example ''http://t/a'' two_topics))"
    using t h1 h2 h3 by blast
  moreover have "handleCallback 0 ?req two_topics
       = (\<lparr>resp_status = Some 400, resp_body = ''Unexpected unsubscribe'' @ [CHR 0x0A]\<rparr>,
          two_topics)"
    using t h1 h2 h3 by blast
  ultimately show ?thesis
    using h1 h2 h3 h4 gone c by (simp only: simp_thms)
qed

text \<open>
  Claim C5 as stated, with the body \<open>Unexpected unsubscribe\<close>, fails: \<open>http.Error\<close>
  ends the message with a line feed.
\<close>
theorem unexpected_unsubscribe_body:
  "resp_body (fst (handleCallback 0 (verification ''unsubscribe'' ''http://t/a'' []) two_topics))
     = ''Unexpected unsubscribe'' @ [CHR 0x0A]
   \<and> resp_body (fst (handleCallback 0 (verification ''unsubscribe'' ''http://t/a'' []) two_topics))
     \<noteq> ''Unexpected unsubscribe''"
  by (simp add: handleCallback_def handleUnsubscribe_def verification_fields lookup_two_topics
      StatusBadRequest_def)




text \<open>
  The same tick when the hub of the first record is the single colon: the record is due,
  \<open>http.NewRequest\<close> gives no request, and the loop ends in the panic. No request is
  made, not for the second record either.
\<close>

lemma bad_hub_tick:
  "ensureSubscribed parses_example (\<lambda>i. 0) bad_hub = Panics bad_hub
   \<and> map (hub \<circ> snd) (subscriptions (client bad_hub)) = ['':'', ''http://hub.example'']
   \<and> sent bad_hub = []"
  by (simp add: ensureSubscribed_def bad_hub_def new_world_def Subscribe_def Let_def
      NewClient_def ring_New_def set_subscriptions_def renew_eq parses_example_def
      time_Now_def unixToInternal_def)

text \<open>
  \<open>Unsubscribe\<close> on the running client with that hub: the call panics, with the entry
  of the topic already removed.
\<close>

lemma bad_hub_unsubscribe:
  "Unsubscribe parses_example ''http://t/a''
     (bad_hub\<lparr>client := (client bad_hub)\<lparr>running := True\<rparr>\<rparr>)
   = Panics (bad_hub\<lparr>client := (client bad_hub)\<lparr>running := True,
        subscriptions := [(''http://t/b'', topic_b)]\<rparr>\<rparr>)"
  by (simp add: bad_hub_def new_world_def Subscribe_def Let_def NewClient_def ring_New_def
      set_subscriptions_def Unsubscribe_def makeUnsubscribeRequeast_eq parses_example_def
      topic_b_def)

lemma numbered_update: "is_update two_topics (numbered n) topic_b"
  by (simp add: is_update_def numbered_def callback_def Values_Get_def path_1
      passes_signature_def topic_b_secret)

lemma numbered_body: "body (numbered n) = Some (replicate n (CHR ''x''))"
  by (simp add: numbered_def callback_def)

lemma numbered_distinct: "distinct (map body (map numbered [0..<m]))"
proof -
  have "inj_on (\<lambda>n. body (numbered n)) (set [0..<m])"
  proof (rule inj_onI)
    fix a b assume "body (numbered a) = body (numbered b)"
    then have "length (replicate a (CHR ''x'')) = length (replicate b (CHR ''x''))"
      by (simp only: numbered_body option.inject)
    then show "a = b" by simp
  qed
  then show ?thesis
    by (simp add: distinct_map comp_def)
qed

lemma upt_51: "[0..<51] = 0 # [1..<51]"
proof -
  have "[0..<51] = 0 # [Suc 0..<51]"
    by (rule upt_conv_Cons) simp
  then show ?thesis
    by (simp only: One_nat_def)
qed

text \<open>
  The theorem at a new client and 51 notifications for the topic without secret, with
  bodies of 0 to 50 letters.
\<close>
theorem dedup_and_eviction_witness:
  "length (history (client two_topics)) = 50
   \<and> list_all (\<lambda>r. is_update two_topics r topic_b) (numbered 0 # map numbered [1..<51])
   \<and> list_all (\<lambda>r. Some (message_hash (body_of r)) \<notin> set (history (client two_topics)))
        (numbered 0 # map numbered [1..<51])
   \<and> distinct (map body (numbered 0 # map numbered [1..<51]))
   \<and> length (map numbered [1..<51]) = 50
   \<and> invoked (deliver 0 [numbered 0, numbered 0] two_topics)
       = invoked two_topics @ [call_of topic_b (numbered 0)]
   \<and> Some (message_hash (body_of (numbered 0)))
       \<notin> set (history (client (deliver 0 (numbered 0 # map numbered [1..<51]) two_topics)))
   \<and> invoked (deliver 0 ((numbered 0 # map numbered [1..<51]) @ [numbered 0]) two_topics)
       = invoked two_topics @ map (call_of topic_b) (numbered 0 # map numbered [1..<51])
           @ [call_of topic_b (numbered 0)]"
proof -
  let ?rs = "map numbered [1..<51]"
  have h1: "length (history (client two_topics)) = 50"
    by (simp add: history_two_topics)
  have h2: "\<forall>r \<in> set (numbered 0 # ?rs). is_update two_topics r topic_b"
    by (auto simp: numbered_update)
  have h3: "\<forall>r \<in> set (numbered 0 # ?rs).
      Some (message_hash (body_of r)) \<notin> set (history (client two_topics))"
    by (simp add: history_two_topics)
  have h4: "distinct (map body (numbered 0 # ?rs))"
    using numbered_distinct [of 51] by (simp only: upt_51 list.map)
  have n: "length ?rs = 50"
    by simp
  note t = dedup_and_eviction [OF h1 h2 h3 h4, of 0]
  have a: "invoked (deliver 0 [numbered 0, numbered 0] two_topics)
       = invoked two_topics @ [call_of topic_b (numbered 0)]"
    using t by (rule conjunct1)
  have b: "Some (message_hash (body_of (numbered 0)))
       \<notin> set (history (client (deliver 0 (numbered 0 # ?rs) two_topics)))
     \<and> invoked (deliver 0 ((numbered 0 # ?rs) @ [numbered 0]) two_topics)
       = invoked two_topics @ map (call_of topic_b) (numbered 0 # ?rs)
           @ [call_of topic_b (numbered 0)]"
    using t n by blast
  show ?thesis
    using h1 h2 h3 h4 n a b by (simp only: list_all_iff simp_thms)
qed

end
